theory Spec2Isabelle
  imports Complex_Main
begin

section \<open>The job search client \<^verbatim>\<open>examples/find-jobs-by-skill.py\<close>\<close>

text \<open>
  The script is a command-line client: it joins the skills of the command line into the
  path of one HTTP GET, and prints what the service answers. The model below follows the
  script statement by statement. What the script does not contain is a parameter of the
  model: the network with the \<^verbatim>\<open>requests\<close> library (a function from the request to what
  the library's calls return or raise) and Python's \<^verbatim>\<open>repr\<close> of floats, lists and
  dictionaries. Standard output is taken to encode in UTF-8, as Python sets it up by
  default: it accepts every string but one that holds a surrogate code point.
\<close>

subsection \<open>Strings\<close>

text \<open>
  A Python \<^verbatim>\<open>str\<close> is a sequence of Unicode code points, and \<^verbatim>\<open>len\<close>, slicing and
  iteration count code points: a string is a list of code points. \<open>asc\<close> reads an ASCII
  literal.
\<close>

type_synonym ustr = "nat list"

definition asc :: "string \<Rightarrow> ustr" where
  "asc s = map of_char s"

text \<open>\<^verbatim>\<open>sep.join(xs)\<close> on a list of strings.\<close>

fun str_join :: "ustr \<Rightarrow> ustr list \<Rightarrow> ustr" where
  "str_join sep [] = []"
| "str_join sep [x] = x"
| "str_join sep (x # y # ys) = x @ sep @ str_join sep (y # ys)"

text \<open>\<^verbatim>\<open>str(n)\<close> of an integer, and the format \<^verbatim>\<open>{i:2d}\<close>: right-aligned in two columns.\<close>

fun dec_nat :: "nat \<Rightarrow> ustr" where
  "dec_nat n = (if n < 10 then [48 + n] else dec_nat (n div 10) @ [48 + n mod 10])"

declare dec_nat.simps [simp del]

definition str_int :: "int \<Rightarrow> ustr" where
  "str_int i = (if i < 0 then 45 # dec_nat (nat (- i)) else dec_nat (nat i))"

definition format_2d :: "int \<Rightarrow> ustr" where
  "format_2d i = replicate (2 - length (str_int i)) 32 @ str_int i"

text \<open>The pictographs that start the printed lines, by code point.\<close>

definition emoji_rocket :: ustr where "emoji_rocket = [128640]"
definition emoji_cross :: ustr where "emoji_cross = [10060]"
definition emoji_target :: ustr where "emoji_target = [127919]"
definition emoji_clipboard :: ustr where "emoji_clipboard = [128203]"
definition emoji_office :: ustr where "emoji_office = [127970]"
definition emoji_pin :: ustr where "emoji_pin = [128205]"
definition emoji_link :: ustr where "emoji_link = [128279]"
definition emoji_tools :: ustr where "emoji_tools = [128736, 65039]"
definition emoji_calendar :: ustr where "emoji_calendar = [128197]"
definition emoji_globe :: ustr where "emoji_globe = [127760]"

subsection \<open>Python values and exceptions\<close>

text \<open>
  What \<^verbatim>\<open>response.json()\<close> returns: \<^verbatim>\<open>None\<close>, a bool, an int, a float, a str, a list
  or a dict with string keys. A dict is the list of its items in insertion order, with
  distinct keys.
\<close>

datatype pyval =
    PNone
  | PBool bool
  | PInt int
  | PFloat real
  | PStr ustr
  | PList "pyval list"
  | PDict "(ustr \<times> pyval) list"

text \<open>
  The exceptions the script can meet. \<open>ConnectionError\<close> and \<open>RequestException\<close> are
  those of \<^verbatim>\<open>requests.exceptions\<close> and carry \<^verbatim>\<open>str(e)\<close>; \<open>RequestException\<close> stands for
  every instance of that class that is not a \<open>ConnectionError\<close> (a timeout, the
  \<^verbatim>\<open>HTTPError\<close> of \<^verbatim>\<open>raise_for_status\<close>, ...). \<open>KeyError\<close> carries the missing key.
  \<open>UnicodeEncodeError\<close> is what \<^verbatim>\<open>print\<close> raises on a string that standard output cannot
  encode. \<open>OtherException\<close> is any other exception a library call raises. \<open>SystemExit\<close>
  is raised by \<^verbatim>\<open>sys.exit\<close>.
\<close>

datatype exception =
    ConnectionError ustr
  | RequestException ustr
  | KeyError ustr
  | TypeError
  | UnicodeEncodeError
  | OtherException
  | SystemExit int

fun is_ConnectionError :: "exception \<Rightarrow> bool" where
  "is_ConnectionError (ConnectionError m) = True"
| "is_ConnectionError e = False"

text \<open>\<^verbatim>\<open>requests.exceptions.ConnectionError\<close> is a subclass of \<^verbatim>\<open>RequestException\<close>.\<close>

fun is_RequestException :: "exception \<Rightarrow> bool" where
  "is_RequestException (ConnectionError m) = True"
| "is_RequestException (RequestException m) = True"
| "is_RequestException e = False"

fun str_exception :: "exception \<Rightarrow> ustr" where
  "str_exception (ConnectionError m) = m"
| "str_exception (RequestException m) = m"
| "str_exception e = []"

definition bind_exc :: "exception + 'a \<Rightarrow> ('a \<Rightarrow> exception + 'b) \<Rightarrow> exception + 'b" where
  "bind_exc m f = (case m of Inl e \<Rightarrow> Inl e | Inr x \<Rightarrow> f x)"

text \<open>\<^verbatim>\<open>v[k]\<close> with a string key: only a dict has string keys.\<close>

fun getitem :: "pyval \<Rightarrow> ustr \<Rightarrow> exception + pyval" where
  "getitem (PDict kvs) k = (case map_of kvs k of Some v \<Rightarrow> Inr v | None \<Rightarrow> Inl (KeyError k))"
| "getitem v k = Inl TypeError"

text \<open>The truth value of \<^verbatim>\<open>if v:\<close>.\<close>

fun truthy :: "pyval \<Rightarrow> bool" where
  "truthy PNone = False"
| "truthy (PBool b) = b"
| "truthy (PInt i) = (i \<noteq> 0)"
| "truthy (PFloat r) = (r \<noteq> 0)"
| "truthy (PStr s) = (s \<noteq> [])"
| "truthy (PList vs) = (vs \<noteq> [])"
| "truthy (PDict kvs) = (kvs \<noteq> [])"

text \<open>
  The items of \<^verbatim>\<open>for x in v\<close>: the elements of a list, the characters of a string, the keys
  of a dict.
\<close>

fun py_iter :: "pyval \<Rightarrow> exception + pyval list" where
  "py_iter (PList vs) = Inr vs"
| "py_iter (PStr s) = Inr (map (\<lambda>c. PStr [c]) s)"
| "py_iter (PDict kvs) = Inr (map (\<lambda>kv. PStr (fst kv)) kvs)"
| "py_iter v = Inl TypeError"

fun py_len :: "pyval \<Rightarrow> exception + nat" where
  "py_len (PList vs) = Inr (length vs)"
| "py_len (PStr s) = Inr (length s)"
| "py_len (PDict kvs) = Inr (length kvs)"
| "py_len v = Inl TypeError"

text \<open>
  \<^verbatim>\<open>v[:n]\<close>. A dict has no slices (CPython raises \<^verbatim>\<open>TypeError\<close> up to 3.11 and
  \<^verbatim>\<open>KeyError\<close> from 3.12, where a slice is hashable; the model has the former).
\<close>

fun slice_to :: "nat \<Rightarrow> pyval \<Rightarrow> exception + pyval" where
  "slice_to n (PList vs) = Inr (PList (take n vs))"
| "slice_to n (PStr s) = Inr (PStr (take n s))"
| "slice_to n v = Inl TypeError"

text \<open>\<^verbatim>\<open>sep.join(v)\<close>: every item of \<open>v\<close> has to be a string.\<close>

fun the_strs :: "pyval list \<Rightarrow> exception + ustr list" where
  "the_strs [] = Inr []"
| "the_strs (PStr s # vs) = bind_exc (the_strs vs) (\<lambda>ss. Inr (s # ss))"
| "the_strs (v # vs) = Inl TypeError"

definition py_join :: "ustr \<Rightarrow> pyval \<Rightarrow> exception + ustr" where
  "py_join sep v = bind_exc (py_iter v) (\<lambda>items. bind_exc (the_strs items) (\<lambda>ss. Inr (str_join sep ss)))"

text \<open>
  \<^verbatim>\<open>{v}\<close> in an f-string is \<^verbatim>\<open>str(v)\<close>. For a float, a list and a dict that is Python's
  \<^verbatim>\<open>repr\<close>, the parameter \<open>R\<close>.
\<close>

fun py_str :: "(pyval \<Rightarrow> ustr) \<Rightarrow> pyval \<Rightarrow> ustr" where
  "py_str R PNone = asc ''None''"
| "py_str R (PBool b) = (if b then asc ''True'' else asc ''False'')"
| "py_str R (PInt i) = str_int i"
| "py_str R (PStr s) = s"
| "py_str R v = R v"

subsection \<open>Effects: requests and printed lines\<close>

text \<open>
  A request is the URL and the \<^verbatim>\<open>params\<close> dict given to \<^verbatim>\<open>requests.get\<close>. A run is the
  trace of its effects in order (each \<^verbatim>\<open>requests.get\<close> and each \<^verbatim>\<open>print\<close>, with its
  argument) and how it ends: with a value, or with an exception.
\<close>

type_synonym request = "ustr \<times> (ustr \<times> int) list"

datatype event = Get request | Print ustr

type_synonym 'a run = "event list \<times> (exception + 'a)"

definition return_run :: "'a \<Rightarrow> 'a run" where
  "return_run x = ([], Inr x)"

definition raise :: "exception \<Rightarrow> 'a run" where
  "raise e = ([], Inl e)"

definition lift :: "exception + 'a \<Rightarrow> 'a run" where
  "lift r = ([], r)"

text \<open>
  \<^verbatim>\<open>print(s)\<close> encodes \<open>s\<close> for standard output before it writes. The UTF-8 codec
  refuses the surrogates U+D800 to U+DFFF, which a Python string can hold (the JSON
  escape of a lone surrogate decodes to one, and so does an undecodable byte of the
  command line): then \<^verbatim>\<open>print\<close> raises \<^verbatim>\<open>UnicodeEncodeError\<close> and nothing of \<open>s\<close> is
  written. Code points end at U+10FFFF.
\<close>

definition encodable :: "ustr \<Rightarrow> bool" where
  "encodable s = list_all (\<lambda>c. c < 55296 \<or> (57343 < c \<and> c < 1114112)) s"

definition print :: "ustr \<Rightarrow> unit run" where
  "print s = (if encodable s then ([Print s], Inr ()) else ([], Inl UnicodeEncodeError))"

definition bind_run :: "'a run \<Rightarrow> ('a \<Rightarrow> 'b run) \<Rightarrow> 'b run" where
  "bind_run m f =
     (case m of
        (t, Inl e) \<Rightarrow> (t, Inl e)
      | (t, Inr x) \<Rightarrow> (case f x of (t', r) \<Rightarrow> (t @ t', r)))"

text \<open>\<^verbatim>\<open>print(f"...")\<close>: the string is evaluated, which may raise, and then printed.\<close>

definition print_expr :: "exception + ustr \<Rightarrow> unit run" where
  "print_expr s = bind_run (lift s) print"

text \<open>A sequence of statements, and a \<^verbatim>\<open>for\<close> loop over a list.\<close>

fun seq_run :: "unit run list \<Rightarrow> unit run" where
  "seq_run [] = return_run ()"
| "seq_run (m # ms) = bind_run m (\<lambda>u. seq_run ms)"

fun for_each :: "('a \<Rightarrow> unit run) \<Rightarrow> 'a list \<Rightarrow> unit run" where
  "for_each body [] = return_run ()"
| "for_each body (x # xs) = bind_run (body x) (\<lambda>u. for_each body xs)"

definition printed :: "'a run \<Rightarrow> ustr list" where
  "printed m = concat (map (\<lambda>ev. case ev of Print s \<Rightarrow> [s] | Get rq \<Rightarrow> []) (fst m))"

definition requested :: "'a run \<Rightarrow> request list" where
  "requested m = concat (map (\<lambda>ev. case ev of Get rq \<Rightarrow> [rq] | Print s \<Rightarrow> []) (fst m))"

subsection \<open>The network\<close>

text \<open>
  A response of the \<^verbatim>\<open>requests\<close> library, as far as the script looks at it: what
  \<^verbatim>\<open>raise_for_status()\<close> raises, if anything, and what \<^verbatim>\<open>json()\<close> returns or raises.
  The network answers a request with a response, or \<^verbatim>\<open>requests.get\<close> raises.
\<close>

record response =
  raise_for_status :: "exception option"
  json :: "exception + pyval"

type_synonym network = "request \<Rightarrow> exception + response"

definition requests_get :: "network \<Rightarrow> request \<Rightarrow> response run" where
  "requests_get net rq = ([Get rq], net rq)"

text \<open>
  The three statements both functions start with:
  \<^verbatim>\<open>response = requests.get(...); response.raise_for_status(); data = response.json()\<close>.
\<close>

definition fetch_json :: "network \<Rightarrow> request \<Rightarrow> pyval run" where
  "fetch_json net rq =
     bind_run (requests_get net rq) (\<lambda>resp.
       case raise_for_status resp of
         Some e \<Rightarrow> raise e
       | None \<Rightarrow> lift (json resp))"

subsection \<open>\<^verbatim>\<open>find_jobs_by_skills\<close>\<close>

definition API_BASE :: ustr where
  "API_BASE = asc ''http://localhost:3000/api''"

definition comma :: nat where
  "comma = 44"

text \<open>\<^verbatim>\<open>skills_str = ",".join(skills)\<close>\<close>

definition skills_str :: "ustr list \<Rightarrow> ustr" where
  "skills_str skills = str_join [comma] skills"

text \<open>
  The arguments of \<^verbatim>\<open>requests.get(url, params={"limit": limit})\<close>. The parameter
  \<^verbatim>\<open>limit=10\<close> has a default: \<open>None\<close> is a call that leaves it out.
\<close>

definition search_request :: "ustr list \<Rightarrow> int option \<Rightarrow> request" where
  "search_request skills limit =
     (API_BASE @ asc ''/jobs/skills/'' @ skills_str skills,
      [(asc ''limit'', (case limit of None \<Rightarrow> 10 | Some l \<Rightarrow> l))])"

text \<open>The lines of one job, lines 29 to 38 of the script.\<close>

definition field_line :: "(pyval \<Rightarrow> ustr) \<Rightarrow> ustr \<Rightarrow> pyval \<Rightarrow> ustr \<Rightarrow> exception + ustr" where
  "field_line R label job key = bind_exc (getitem job key) (\<lambda>v. Inr (label @ py_str R v))"

definition ellipsis :: ustr where
  "ellipsis = asc ''...''"

definition skills_label :: ustr where
  "skills_label = emoji_tools @ asc ''  Skills: ''"

definition skills_line :: "pyval \<Rightarrow> exception + ustr" where
  "skills_line job =
     bind_exc (getitem job (asc ''skills'')) (\<lambda>s.
     bind_exc (slice_to 5 s) (\<lambda>s5.
     bind_exc (py_join (asc '', '') s5) (\<lambda>shown.
     bind_exc (getitem job (asc ''skills'')) (\<lambda>s'.
     bind_exc (py_len s') (\<lambda>n.
       Inr (skills_label @ shown @ (if n > 5 then ellipsis else [])))))))"

definition job_block :: "(pyval \<Rightarrow> ustr) \<Rightarrow> pyval \<Rightarrow> unit run" where
  "job_block R job = seq_run
     [print_expr (field_line R (emoji_clipboard @ asc '' '') job (asc ''title'')),
      print_expr (field_line R (emoji_office @ asc '' Company: '') job (asc ''company'')),
      print_expr (field_line R (emoji_pin @ asc '' Location: '') job (asc ''location'')),
      print_expr (field_line R (emoji_link @ asc '' URL: '') job (asc ''url'')),
      print_expr (skills_line job),
      print_expr (field_line R (emoji_calendar @ asc '' Posted: '') job (asc ''postedDate'')),
      print_expr (field_line R (emoji_globe @ asc '' Source: '') job (asc ''source'')),
      print (replicate 60 45)]"

definition header_line :: "(pyval \<Rightarrow> ustr) \<Rightarrow> ustr list \<Rightarrow> pyval \<Rightarrow> exception + ustr" where
  "header_line R skills data =
     bind_exc (getitem data (asc ''count'')) (\<lambda>c.
       Inr (emoji_target @ asc '' Found '' @ py_str R c @ asc '' jobs matching skills: ''
            @ str_join (asc '', '') skills))"

text \<open>Lines 24 to 40: what is printed for the decoded body \<open>data\<close>.\<close>

definition render :: "(pyval \<Rightarrow> ustr) \<Rightarrow> ustr list \<Rightarrow> pyval \<Rightarrow> unit run" where
  "render R skills data =
     bind_run (lift (getitem data (asc ''success''))) (\<lambda>ok.
       if truthy ok then
         seq_run
           [print_expr (header_line R skills data),
            print (replicate 60 61),
            bind_run (lift (bind_exc (getitem data (asc ''jobs'')) py_iter)) (for_each (job_block R))]
       else
         print_expr (field_line R (emoji_cross @ asc '' Error: '') data (asc ''error'')))"

text \<open>
  The two \<^verbatim>\<open>except\<close> clauses, in the order of the script. An exception of another class
  leaves the function.
\<close>

definition handle_request_errors :: "unit run \<Rightarrow> unit run" where
  "handle_request_errors m =
     (case m of
        (t, Inr u) \<Rightarrow> (t, Inr u)
      | (t, Inl e) \<Rightarrow>
          if is_ConnectionError e then
            bind_run (t, Inr ()) (\<lambda>u. seq_run
              [print (emoji_cross @ asc '' Could not connect to the API server.''),
               print (asc ''Make sure the server is running: npm start'')])
          else if is_RequestException e then
            bind_run (t, Inr ()) (\<lambda>u. print (emoji_cross @ asc '' Request failed: '' @ str_exception e))
          else (t, Inl e))"

definition find_jobs_by_skills ::
    "(pyval \<Rightarrow> ustr) \<Rightarrow> network \<Rightarrow> ustr list \<Rightarrow> int option \<Rightarrow> unit run" where
  "find_jobs_by_skills R net skills limit =
     handle_request_errors
       (bind_run (fetch_json net (search_request skills limit)) (render R skills))"

subsection \<open>\<^verbatim>\<open>get_available_skills\<close>\<close>

text \<open>
  The \<^verbatim>\<open>try\<close> block: \<open>Some v\<close> when it returns \<open>v\<close>, \<open>None\<close> when it runs to its end
  without a \<^verbatim>\<open>return\<close>.
\<close>

definition skills_request :: request where
  "skills_request = (API_BASE @ asc ''/skills'', [])"

definition get_available_skills_try :: "network \<Rightarrow> pyval option run" where
  "get_available_skills_try net =
     bind_run (fetch_json net skills_request) (\<lambda>data.
     bind_run (lift (getitem data (asc ''success''))) (\<lambda>ok.
       if truthy ok then
         bind_run (lift (getitem data (asc ''skills''))) (\<lambda>v. return_run (Some v))
       else return_run None))"

text \<open>
  The bare \<^verbatim>\<open>except:\<close> returns \<^verbatim>\<open>[]\<close> on every exception; a function that ends without
  \<^verbatim>\<open>return\<close> returns \<^verbatim>\<open>None\<close>.
\<close>

definition get_available_skills :: "network \<Rightarrow> pyval run" where
  "get_available_skills net =
     (case get_available_skills_try net of
        (t, Inl e) \<Rightarrow> (t, Inr (PList []))
      | (t, Inr (Some v)) \<Rightarrow> (t, Inr v)
      | (t, Inr None) \<Rightarrow> (t, Inr PNone))"

subsection \<open>\<^verbatim>\<open>main\<close>\<close>

text \<open>\<^verbatim>\<open>enumerate(xs, 1)\<close>\<close>

definition enumerate1 :: "'a list \<Rightarrow> (int \<times> 'a) list" where
  "enumerate1 xs = zip (map int [1 ..< Suc (length xs)]) xs"

definition entry_line :: "(pyval \<Rightarrow> ustr) \<Rightarrow> int \<times> pyval \<Rightarrow> ustr" where
  "entry_line R p = asc ''  '' @ format_2d (fst p) @ asc ''. '' @ py_str R (snd p)"

definition more_line :: "int \<Rightarrow> ustr" where
  "more_line k = asc ''     ... and '' @ str_int k @ asc '' more''"

definition usage_line :: ustr where
  "usage_line = asc ''Usage: python find-jobs-by-skill.py <skill1> [skill2] [skill3] ...''"

definition available_line :: ustr where
  "available_line = 10 # asc ''Available skills:''"

definition could_not_fetch_line :: ustr where
  "could_not_fetch_line = asc ''  (Could not fetch skills - make sure server is running)''"

definition example_line :: ustr where
  "example_line = 10 # asc ''Example: python find-jobs-by-skill.py JavaScript React Node.js''"

text \<open>Lines 67 to 73: the display of what \<^verbatim>\<open>get_available_skills\<close> returned.\<close>

definition show_catalog :: "(pyval \<Rightarrow> ustr) \<Rightarrow> pyval \<Rightarrow> unit run" where
  "show_catalog R skills =
     (if truthy skills then
        seq_run
          [bind_run (lift (bind_exc (slice_to 20 skills) py_iter)) (\<lambda>items.
             for_each (\<lambda>p. print (entry_line R p)) (enumerate1 items)),
           bind_run (lift (py_len skills)) (\<lambda>n.
             if n > 20 then print (more_line (int n - 20)) else return_run ())]
      else print could_not_fetch_line)"

text \<open>\<open>argv\<close> is \<^verbatim>\<open>sys.argv\<close>: the name of the script, then the arguments.\<close>

definition main :: "(pyval \<Rightarrow> ustr) \<Rightarrow> network \<Rightarrow> ustr list \<Rightarrow> unit run" where
  "main R net argv =
     (if length argv < 2 then
        seq_run
          [print usage_line,
           print available_line,
           bind_run (get_available_skills net) (show_catalog R),
           print example_line,
           raise (SystemExit 1)]
      else
        seq_run
          [print (emoji_rocket @ asc '' Job Posting Aggregator - Skills Search''),
           print (replicate 50 61),
           find_jobs_by_skills R net (drop 1 argv) (Some 20)])"

text \<open>
  The exit status of the process that runs \<^verbatim>\<open>main()\<close>: 0 when it returns, the argument
  of \<^verbatim>\<open>sys.exit\<close>, and 1 when an exception is not caught (the interpreter prints the
  traceback).
\<close>

fun exit_status :: "unit run \<Rightarrow> int" where
  "exit_status (t, Inr u) = 0"
| "exit_status (t, Inl (SystemExit n)) = n"
| "exit_status (t, Inl e) = 1"

subsection \<open>The data model of the specification\<close>

text \<open>
  The specification's JobRecord and SearchResult, and the JSON body that carries them
  (section 6 of the specification: the keys \<^verbatim>\<open>title\<close>, \<^verbatim>\<open>company\<close>, \<^verbatim>\<open>location\<close>,
  \<^verbatim>\<open>url\<close>, \<^verbatim>\<open>skills\<close>, \<^verbatim>\<open>postedDate\<close>, \<^verbatim>\<open>source\<close> of a job, and \<^verbatim>\<open>success\<close>,
  \<^verbatim>\<open>count\<close>, \<^verbatim>\<open>jobs\<close> and the optional \<^verbatim>\<open>error\<close> of a result).
\<close>

record job_record =
  title :: ustr
  company :: ustr
  location :: ustr
  url :: ustr
  skills :: "ustr list"
  postedDate :: ustr
  source :: ustr

record search_result =
  success :: bool
  count :: int
  jobs :: "job_record list"
  error :: "ustr option"

definition json_of_job :: "job_record \<Rightarrow> pyval" where
  "json_of_job j = PDict
     [(asc ''title'', PStr (title j)),
      (asc ''company'', PStr (company j)),
      (asc ''location'', PStr (location j)),
      (asc ''url'', PStr (url j)),
      (asc ''skills'', PList (map PStr (skills j))),
      (asc ''postedDate'', PStr (postedDate j)),
      (asc ''source'', PStr (source j))]"

definition json_of_result :: "search_result \<Rightarrow> pyval" where
  "json_of_result r = PDict
     ([(asc ''success'', PBool (success r)),
       (asc ''count'', PInt (count r)),
       (asc ''jobs'', PList (map json_of_job (jobs r)))]
      @ (case error r of None \<Rightarrow> [] | Some m \<Rightarrow> [(asc ''error'', PStr m)]))"

text \<open>The catalog body of the skills endpoint: a success flag and the list of skills.\<close>

definition json_of_catalog :: "bool \<Rightarrow> ustr list \<Rightarrow> pyval" where
  "json_of_catalog ok cat = PDict [(asc ''success'', PBool ok), (asc ''skills'', PList (map PStr cat))]"

text \<open>
  The output the specification describes for a successful result (section 4.2): the
  header line with the count and the requested skills, a rule, and for each record its
  seven fields and a rule, the skills cut to the first five with the ellipsis marker
  after them when there are more.
\<close>

definition spec_header :: "int \<Rightarrow> ustr list \<Rightarrow> ustr" where
  "spec_header c requested_skills =
     emoji_target @ asc '' Found '' @ str_int c @ asc '' jobs matching skills: ''
     @ str_join (asc '', '') requested_skills"

definition spec_skills_line :: "ustr list \<Rightarrow> ustr" where
  "spec_skills_line ss =
     (if length ss \<le> 5 then skills_label @ str_join (asc '', '') ss
      else skills_label @ str_join (asc '', '') (take 5 ss) @ ellipsis)"

definition spec_job_block :: "job_record \<Rightarrow> ustr list" where
  "spec_job_block j =
     [emoji_clipboard @ asc '' '' @ title j,
      emoji_office @ asc '' Company: '' @ company j,
      emoji_pin @ asc '' Location: '' @ location j,
      emoji_link @ asc '' URL: '' @ url j,
      spec_skills_line (skills j),
      emoji_calendar @ asc '' Posted: '' @ postedDate j,
      emoji_globe @ asc '' Source: '' @ source j,
      replicate 60 45]"

text \<open>The strings that the block of a job prints can be encoded on standard output.\<close>

definition encodable_job :: "job_record \<Rightarrow> bool" where
  "encodable_job j =
     (encodable (title j) \<and> encodable (company j) \<and> encodable (location j)
      \<and> encodable (url j) \<and> list_all encodable (take 5 (skills j))
      \<and> encodable (postedDate j) \<and> encodable (source j))"

text \<open>The specification's numbered catalog display (section 4.3).\<close>

definition spec_catalog_lines :: "ustr list \<Rightarrow> ustr list" where
  "spec_catalog_lines cat =
     map (\<lambda>i. asc ''  '' @ format_2d (int (Suc i)) @ asc ''. '' @ cat ! i) [0 ..< min 20 (length cat)]
     @ (if length cat > 20
        then [asc ''     ... and '' @ str_int (int (length cat) - 20) @ asc '' more'']
        else [])"

text \<open>\<^verbatim>\<open>s.split(d)\<close> for a one-character delimiter: the inverse of joining.\<close>

fun split_on :: "nat \<Rightarrow> ustr \<Rightarrow> ustr list" where
  "split_on d [] = [[]]"
| "split_on d (c # cs) =
     (if c = d then [] # split_on d cs
      else (case split_on d cs of [] \<Rightarrow> [[c]] | w # ws \<Rightarrow> (c # w) # ws))"

text \<open>The part of a search URL after \<^verbatim>\<open>{API_BASE}/jobs/skills/\<close>.\<close>

definition skill_segment :: "ustr \<Rightarrow> ustr" where
  "skill_segment u = drop (length (API_BASE @ asc ''/jobs/skills/'')) u"

text \<open>A response with no error status whose body decodes to \<open>v\<close>.\<close>

definition ok_response :: "pyval \<Rightarrow> response" where
  "ok_response v = \<lparr>raise_for_status = None, json = Inr v\<rparr>"

subsection \<open>The failures of the catalog fetch\<close>


definition guidance_without_catalog :: "event list" where
  "guidance_without_catalog =
     [Print usage_line, Print available_line, Get skills_request,
      Print could_not_fetch_line, Print example_line]"

subsection \<open>Example inputs\<close>

text \<open>
  A network that gives every request the same answer, and a stand-in for Python's
  \<^verbatim>\<open>repr\<close> on runs that never format a float, a list or a dict.
\<close>

definition net_of :: "exception + response \<Rightarrow> network" where
  "net_of answer rq = answer"

definition no_repr :: "pyval \<Rightarrow> ustr" where
  "no_repr v = []"

text \<open>
  The job of the specification's scenario A, a job with six skills, and three results: one
  job found, none found, and a search the service rejects.
\<close>

definition job_A :: job_record where
  "job_A = \<lparr>title = asc ''Backend Engineer'', company = asc ''Acme'', location = asc ''Remote'',
     url = asc ''http://x'', skills = [asc ''Python'', asc ''SQL''],
     postedDate = asc ''2024-01-01'', source = asc ''example''\<rparr>"

definition job_six :: job_record where
  "job_six = job_A\<lparr>skills := [asc ''a'', asc ''b'', asc ''c'', asc ''d'', asc ''e'', asc ''f'']\<rparr>"

definition result_A :: search_result where
  "result_A = \<lparr>success = True, count = 1, jobs = [job_A], error = None\<rparr>"

definition result_none :: search_result where
  "result_none = \<lparr>success = True, count = 0, jobs = [], error = None\<rparr>"

definition result_rejected :: search_result where
  "result_rejected = \<lparr>success = False, count = 7, jobs = [job_A], error = Some (asc ''Database unavailable'')\<rparr>"

text \<open>
  The command line without arguments, and five networks on which the catalog fetch fails:
  no connection, an error status, a body that is not JSON, a false flag, no flag.
\<close>

definition script_name :: ustr where
  "script_name = asc ''find-jobs-by-skill.py''"

definition net_refused :: network where
  "net_refused = net_of (Inl (ConnectionError (asc ''Connection refused'')))"



definition net_flag_false :: network where
  "net_flag_false = net_of (Inr (ok_response (json_of_catalog False [asc ''Python''])))"


text \<open>
  Networks for a search: a body that is the empty JSON object, a timeout, the result of
  scenario A, a rejected search. And the network that serves a catalog.
\<close>

definition net_empty_body :: network where
  "net_empty_body = net_of (Inr (ok_response (PDict [])))"

definition net_timeout :: network where
  "net_timeout = net_of (Inl (RequestException (asc ''Read timed out.'')))"

definition net_found :: network where
  "net_found = net_of (Inr (ok_response (json_of_result result_A)))"

definition net_rejected :: network where
  "net_rejected = net_of (Inr (ok_response (json_of_result result_rejected)))"

definition net_catalog :: "ustr list \<Rightarrow> network" where
  "net_catalog cat = net_of (Inr (ok_response (json_of_catalog True cat)))"



definition result_surrogate :: search_result where
  "result_surrogate = \<lparr>success = True, count = 1, jobs = [job_A\<lparr>title := [55296]\<rparr>], error = None\<rparr>"

section \<open>Properties\<close>

subsection \<open>Runs\<close>

lemma bind_run_Inr: "bind_run (t, Inr x) f = (t @ fst (f x), snd (f x))"
  by (simp add: bind_run_def split: prod.splits)

lemma bind_run_Inl: "bind_run (t, Inl e) f = (t, Inl e)"
  by (simp add: bind_run_def)

lemmas run_defs = return_run_def raise_def lift_def print_def print_expr_def

lemma encodable_simps:
  "encodable [] = True"
  "encodable (c # s) = ((c < 55296 \<or> (57343 < c \<and> c < 1114112)) \<and> encodable s)"
  "encodable (a @ b) = (encodable a \<and> encodable b)"
  by (simp_all add: encodable_def)

lemma encodable_replicate: "c < 55296 \<Longrightarrow> encodable (replicate n c)"
  by (induction n) (simp_all add: encodable_simps)

lemma encodable_asc: "encodable (asc s)"
proof (induction s)
  case Nil
  then show ?case by (simp add: asc_def encodable_simps)
next
  case (Cons c s)
  have "(of_char c :: nat) < 256" by simp
  then have "(of_char c :: nat) < 55296" by linarith
  with Cons show ?case by (simp add: asc_def encodable_simps)
qed

lemma encodable_dec_nat: "encodable (dec_nat n)"
proof (induction n rule: dec_nat.induct)
  case (1 n)
  show ?case
  proof (cases "n < 10")
    case True
    then show ?thesis by (simp add: dec_nat.simps encodable_simps)
  next
    case False
    then have "encodable (dec_nat (n div 10))" by (rule "1.IH")
    moreover have "dec_nat n = dec_nat (n div 10) @ [48 + n mod 10]"
      using False by (subst dec_nat.simps) simp
    moreover have "48 + n mod 10 < 55296" by simp
    ultimately show ?thesis by (simp add: encodable_simps)
  qed
qed

lemma encodable_str_int: "encodable (str_int i)"
  by (simp add: str_int_def encodable_simps encodable_dec_nat)

lemma encodable_format_2d: "encodable (format_2d i)"
  by (simp add: format_2d_def encodable_simps encodable_str_int encodable_replicate)

lemma encodable_str_join:
  "encodable sep \<Longrightarrow> list_all encodable ss \<Longrightarrow> encodable (str_join sep ss)"
  by (induction sep ss rule: str_join.induct) (simp_all add: encodable_simps)

lemma encodable_emoji:
  "encodable emoji_rocket" "encodable emoji_cross" "encodable emoji_target"
  "encodable emoji_clipboard" "encodable emoji_office" "encodable emoji_pin"
  "encodable emoji_link" "encodable emoji_tools" "encodable emoji_calendar"
  "encodable emoji_globe"
  by (simp_all add: encodable_simps emoji_rocket_def emoji_cross_def emoji_target_def
      emoji_clipboard_def emoji_office_def emoji_pin_def emoji_link_def emoji_tools_def
      emoji_calendar_def emoji_globe_def)

lemma print_ok: "encodable s \<Longrightarrow> print s = ([Print s], Inr ())"
  by (simp add: print_def)

lemma print_fails: "\<not> encodable s \<Longrightarrow> print s = ([], Inl UnicodeEncodeError)"
  by (simp add: print_def)

lemma print_expr_Inr: "encodable s \<Longrightarrow> print_expr (Inr s) = ([Print s], Inr ())"
  by (simp add: print_expr_def lift_def print_ok bind_run_Inr)

lemma print_banner:
  "print (emoji_rocket @ asc '' Job Posting Aggregator - Skills Search'')
     = ([Print (emoji_rocket @ asc '' Job Posting Aggregator - Skills Search'')], Inr ())"
  "print (replicate 50 61) = ([Print (replicate 50 61)], Inr ())"
  by (simp_all add: print_ok encodable_simps encodable_emoji encodable_asc encodable_replicate)

lemma requested_bind:
  "requested (bind_run m f) = requested m @ (case snd m of Inl e \<Rightarrow> [] | Inr x \<Rightarrow> requested (f x))"
  by (cases m; cases "snd m") (auto simp: bind_run_def requested_def split: prod.splits)

lemma requested_basic:
  "requested (print s) = []" "requested (lift r) = []" "requested (return_run x) = []"
  "requested (raise e) = []" "requested (print_expr a) = []"
  by (auto simp: run_defs requested_def bind_run_def split: sum.splits)

lemma requested_seq_run: "\<forall>m\<in>set ms. requested m = [] \<Longrightarrow> requested (seq_run ms) = []"
  by (induction ms) (auto simp: requested_bind requested_basic split: sum.splits)

lemma requested_for_each: "(\<And>x. requested (body x) = []) \<Longrightarrow> requested (for_each body xs) = []"
  by (induction xs) (auto simp: requested_bind requested_basic split: sum.splits)

lemma requested_job_block: "requested (job_block R job) = []"
  unfolding job_block_def by (rule requested_seq_run) (simp add: requested_basic)

lemma requested_render: "requested (render R S data) = []"
  unfolding render_def
  by (auto simp: requested_bind requested_basic requested_job_block
      intro!: requested_seq_run requested_for_each split: sum.splits)

lemma fetch_json_trace: "fst (fetch_json net rq) = [Get rq]"
  by (cases "net rq") (auto simp: fetch_json_def requests_get_def bind_run_def run_defs split: option.splits prod.splits)

lemma requested_fetch_json: "requested (fetch_json net rq) = [rq]"
  by (simp add: requested_def fetch_json_trace)

lemma requested_handle: "requested (handle_request_errors m) = requested m"
  by (cases m; cases "snd m")
     (auto simp: handle_request_errors_def requested_bind requested_basic bind_run_def run_defs requested_def)

lemma requested_find_jobs: "requested (find_jobs_by_skills R net S L) = [search_request S L]"
  by (simp add: find_jobs_by_skills_def requested_handle requested_bind requested_fetch_json requested_render
      split: sum.splits)

lemma main_search:
  "2 \<le> length argv \<Longrightarrow>
   main R net argv
     = (Print (emoji_rocket @ asc '' Job Posting Aggregator - Skills Search'') # Print (replicate 50 61)
          # fst (find_jobs_by_skills R net (drop 1 argv) (Some 20)),
        snd (find_jobs_by_skills R net (drop 1 argv) (Some 20)))"
  by (simp add: main_def print_banner bind_run_Inr return_run_def)
     (simp add: bind_run_def split: prod.splits sum.splits)

lemma requested_main_search:
  "requested (main R net (p # s # ss)) = [search_request (s # ss) (Some 20)]"
  using requested_find_jobs [of R net "s # ss" "Some 20"]
  by (simp add: main_search requested_def)

lemma count_str_join:
  "S \<noteq> [] \<Longrightarrow> int (count_list (str_join [d] S) d) = int (length S) - 1 + (\<Sum>s\<leftarrow>S. int (count_list s d))"
  by (induction "[d]" S rule: str_join.induct) auto

lemma count_no_delim: "\<forall>s\<in>set S. d \<notin> set s \<Longrightarrow> (\<Sum>s\<leftarrow>S. int (count_list s d)) = 0"
  by (induction S) auto

lemma split_on_no_delim: "d \<notin> set x \<Longrightarrow> split_on d x = [x]"
  by (induction x) auto

lemma split_on_append: "d \<notin> set x \<Longrightarrow> split_on d (x @ d # r) = x # split_on d r"
  by (induction x) auto

lemma split_on_str_join:
  "S \<noteq> [] \<Longrightarrow> \<forall>s\<in>set S. d \<notin> set s \<Longrightarrow> split_on d (str_join [d] S) = S"
  by (induction "[d]" S rule: str_join.induct) (auto simp: split_on_no_delim split_on_append)

subsection \<open>The request of a search\<close>

text \<open>
  C1, as the script has it. For a non-empty list of skills \<open>S\<close> and a limit \<open>L\<close>,
  \<^verbatim>\<open>find_jobs_by_skills\<close> makes one request: its path ends with the skills of \<open>S\<close> in their
  order, joined by commas, and its parameters are the single entry \<^verbatim>\<open>limit\<close> with value
  \<open>L\<close>. The skills are joined as they are, so the commas of the segment are the
  \<open>len(S) - 1\<close> joining ones and those inside the skills; when no skill contains a comma
  there are exactly \<open>len(S) - 1\<close>, and splitting the segment at the commas gives \<open>S\<close> back.
\<close>

theorem search_request_joins_skills:
  assumes "S \<noteq> []"
  shows "requested (find_jobs_by_skills R net S (Some L)) = [search_request S (Some L)]
    \<and> fst (search_request S (Some L)) = API_BASE @ asc ''/jobs/skills/'' @ str_join [comma] S
    \<and> skill_segment (fst (search_request S (Some L))) = str_join [comma] S
    \<and> snd (search_request S (Some L)) = [(asc ''limit'', L)]
    \<and> int (count_list (str_join [comma] S) comma)
        = int (length S) - 1 + (\<Sum>s\<leftarrow>S. int (count_list s comma))
    \<and> ((\<forall>s\<in>set S. comma \<notin> set s) \<longrightarrow>
          int (count_list (str_join [comma] S) comma) = int (length S) - 1
          \<and> split_on comma (str_join [comma] S) = S)"
proof -
  have "int (count_list (str_join [comma] S) comma)
      = int (length S) - 1 + (\<Sum>s\<leftarrow>S. int (count_list s comma))"
    using assms by (rule count_str_join)
  moreover have "split_on comma (str_join [comma] S) = S" if "\<forall>s\<in>set S. comma \<notin> set s"
    using assms that by (rule split_on_str_join)
  ultimately show ?thesis
    by (simp add: requested_find_jobs search_request_def skills_str_def skill_segment_def
        count_no_delim)
qed

theorem search_request_joins_skills_witness:
  "[asc ''Python'', asc ''SQL''] \<noteq> []
   \<and> skill_segment (fst (search_request [asc ''Python'', asc ''SQL''] (Some 20))) = asc ''Python,SQL''
   \<and> snd (search_request [asc ''Python'', asc ''SQL''] (Some 20)) = [(asc ''limit'', 20)]
   \<and> count_list (asc ''Python,SQL'') comma = 1
   \<and> split_on comma (asc ''Python,SQL'') = [asc ''Python'', asc ''SQL'']"
proof -
  let ?S = "[asc ''Python'', asc ''SQL'']"
  have ne: "?S \<noteq> []"
    by simp
  have free: "\<forall>s\<in>set ?S. comma \<notin> set s"
    by (simp add: asc_def comma_def)
  have joined: "str_join [comma] ?S = asc ''Python,SQL''"
    by (simp add: asc_def comma_def)
  note at_S = search_request_joins_skills
    [OF ne, of no_repr "net_of (Inl OtherException)" 20, unfolded joined]
  from at_S free have
    "skill_segment (fst (search_request ?S (Some 20))) = asc ''Python,SQL''"
    "snd (search_request ?S (Some 20)) = [(asc ''limit'', 20)]"
    "int (count_list (asc ''Python,SQL'') comma) = int (length ?S) - 1"
    "split_on comma (asc ''Python,SQL'') = ?S"
    by blast+
  then show ?thesis
    by simp
qed

theorem comma_in_skill_counterexample:
  "[asc ''a,b''] \<noteq> [] \<and> (0::int) < 1
   \<and> skill_segment (fst (search_request [asc ''a,b''] (Some 1))) = asc ''a,b''
   \<and> count_list (skill_segment (fst (search_request [asc ''a,b''] (Some 1)))) comma = 1
   \<and> length [asc ''a,b''] - 1 = 0"
  by (simp add: search_request_def skills_str_def skill_segment_def asc_def comma_def API_BASE_def)

text \<open>
  C2, as the script has it. A call of \<^verbatim>\<open>find_jobs_by_skills\<close> that gives no limit requests
  with the default of the parameter, which is 10. The limit 20 is the one \<^verbatim>\<open>main\<close> passes:
  with at least one skill on the command line, the one request of \<^verbatim>\<open>main\<close> has
  \<^verbatim>\<open>limit\<close> 20.
\<close>

theorem default_limit_is_10:
  "requested (find_jobs_by_skills R net S None)
     = [(API_BASE @ asc ''/jobs/skills/'' @ str_join [comma] S, [(asc ''limit'', 10)])]
   \<and> requested (main R net (prog # s # ss))
     = [(API_BASE @ asc ''/jobs/skills/'' @ str_join [comma] (s # ss), [(asc ''limit'', 20)])]"
  by (simp add: requested_find_jobs requested_main_search search_request_def skills_str_def)

theorem default_limit_counterexample:
  "requested (find_jobs_by_skills no_repr (net_of (Inl OtherException)) [asc ''Python''] None)
     = [(API_BASE @ asc ''/jobs/skills/Python'', [(asc ''limit'', 10)])]
   \<and> snd (search_request [asc ''Python''] None) \<noteq> [(asc ''limit'', 20)]"
  by (simp add: requested_find_jobs search_request_def skills_str_def asc_def)

subsection \<open>What is printed for a result\<close>

lemma printed_Print: "printed (map Print ls, r) = ls"
  by (induction ls) (auto simp: printed_def)

lemma printed_Get: "printed (Get rq # t, r) = printed (t, r)"
  by (simp add: printed_def)

lemma the_strs_map: "the_strs (map PStr ss) = Inr ss"
  by (induction ss) (auto simp: bind_exc_def)

lemma job_fields:
  "getitem (json_of_job j) (asc ''title'') = Inr (PStr (title j))"
  "getitem (json_of_job j) (asc ''company'') = Inr (PStr (company j))"
  "getitem (json_of_job j) (asc ''location'') = Inr (PStr (location j))"
  "getitem (json_of_job j) (asc ''url'') = Inr (PStr (url j))"
  "getitem (json_of_job j) (asc ''skills'') = Inr (PList (map PStr (skills j)))"
  "getitem (json_of_job j) (asc ''postedDate'') = Inr (PStr (postedDate j))"
  "getitem (json_of_job j) (asc ''source'') = Inr (PStr (source j))"
  by (simp_all add: json_of_job_def asc_def)

lemma skills_line_typed: "skills_line (json_of_job j) = Inr (spec_skills_line (skills j))"
  by (simp add: skills_line_def job_fields bind_exc_def py_join_def the_strs_map take_map
      spec_skills_line_def)

lemma encodable_skills_line:
  assumes "list_all encodable (take 5 ss)"
  shows "encodable (spec_skills_line ss)"
proof (cases "length ss \<le> 5")
  case True
  with assms have "list_all encodable ss" by simp
  with True show ?thesis
    by (simp add: spec_skills_line_def skills_label_def encodable_simps encodable_emoji
        encodable_asc encodable_str_join)
next
  case False
  with assms show ?thesis
    by (simp add: spec_skills_line_def skills_label_def ellipsis_def encodable_simps
        encodable_emoji encodable_asc encodable_str_join)
qed

lemma job_block_typed:
  "encodable_job j \<Longrightarrow> job_block R (json_of_job j) = (map Print (spec_job_block j), Inr ())"
  by (simp add: job_block_def field_line_def job_fields skills_line_typed bind_exc_def
      print_expr_Inr print_ok bind_run_Inr return_run_def spec_job_block_def encodable_job_def
      encodable_simps encodable_emoji encodable_asc encodable_skills_line encodable_replicate)

lemma for_each_blocks:
  "list_all encodable_job js \<Longrightarrow>
   for_each (job_block R) (map json_of_job js) = (map Print (concat (map spec_job_block js)), Inr ())"
  by (induction js) (simp_all add: job_block_typed bind_run_Inr return_run_def)

lemma result_fields:
  "getitem (json_of_result r) (asc ''success'') = Inr (PBool (success r))"
  "getitem (json_of_result r) (asc ''count'') = Inr (PInt (count r))"
  "getitem (json_of_result r) (asc ''jobs'') = Inr (PList (map json_of_job (jobs r)))"
  "getitem (json_of_result r) (asc ''error'')
     = (case error r of None \<Rightarrow> Inl (KeyError (asc ''error'')) | Some m \<Rightarrow> Inr (PStr m))"
  by (simp_all add: json_of_result_def asc_def split: option.splits)

lemma encodable_header: "list_all encodable S \<Longrightarrow> encodable (spec_header c S)"
  by (simp add: spec_header_def encodable_simps encodable_emoji encodable_asc encodable_str_int
      encodable_str_join)

lemma header_line_typed: "header_line R S (json_of_result r) = Inr (spec_header (count r) S)"
  by (simp add: header_line_def result_fields bind_exc_def spec_header_def)

lemma render_success:
  assumes "success r" and "list_all encodable S" and "list_all encodable_job (jobs r)"
  shows "render R S (json_of_result r)
     = (map Print (spec_header (count r) S # replicate 60 61 # concat (map spec_job_block (jobs r))), Inr ())"
proof -
  note header_line_typed [of R S r]
  moreover have "encodable (replicate 60 (61::nat))"
    by (simp add: encodable_replicate)
  ultimately show ?thesis
    using assms
    by (simp add: render_def result_fields bind_exc_def lift_def print_ok print_expr_Inr
        encodable_header return_run_def bind_run_Inr for_each_blocks)
qed

lemma render_failure:
  "\<not> success r \<Longrightarrow> error r = Some m \<Longrightarrow> encodable m \<Longrightarrow>
   render R S (json_of_result r) = ([Print (emoji_cross @ asc '' Error: '' @ m)], Inr ())"
  by (simp add: render_def result_fields field_line_def bind_exc_def lift_def print_expr_Inr
      bind_run_Inr encodable_simps encodable_emoji encodable_asc)

lemma fetch_json_eq: "snd (fetch_json net rq) = a \<Longrightarrow> fetch_json net rq = ([Get rq], a)"
  using fetch_json_trace [of net rq] by (cases "fetch_json net rq") simp

lemma find_jobs_served:
  "snd (fetch_json net (search_request S L)) = Inr data \<Longrightarrow>
   find_jobs_by_skills R net S L
     = handle_request_errors (Get (search_request S L) # fst (render R S data), snd (render R S data))"
  using fetch_json_eq [of net "search_request S L" "Inr data"]
  by (simp add: find_jobs_by_skills_def bind_run_Inr)

lemma handle_returned: "handle_request_errors (t, Inr u) = (t, Inr u)"
  by (simp add: handle_request_errors_def)

lemma skills_line_head: "hd (spec_skills_line ss) = 128736"
  by (simp add: spec_skills_line_def skills_label_def emoji_tools_def)

lemma block_line_heads: "l \<in> set (spec_job_block j) \<Longrightarrow> hd l \<noteq> 127919"
  by (auto simp: spec_job_block_def skills_line_head emoji_clipboard_def
      emoji_office_def emoji_pin_def emoji_link_def emoji_calendar_def emoji_globe_def)

lemma header_head: "hd (spec_header c S) = 127919"
  by (simp add: spec_header_def emoji_target_def)

lemma header_not_in_blocks: "spec_header c S \<notin> set (concat (map spec_job_block js))"
proof
  assume "spec_header c S \<in> set (concat (map spec_job_block js))"
  then obtain j where "spec_header c S \<in> set (spec_job_block j)"
    by auto
  from block_line_heads [OF this] show False
    by (simp add: header_head)
qed

lemma header_not_rule: "spec_header c S \<noteq> replicate 60 61"
proof
  assume "spec_header c S = replicate 60 61"
  then have "hd (spec_header c S) = hd (replicate 60 (61::nat))"
    by simp
  then show False
    by (simp add: header_head)
qed

lemma length_job_block: "length (spec_job_block j) = 8"
  by (simp add: spec_job_block_def)

lemma length_blocks: "length (concat (map spec_job_block js)) = 8 * length js"
  by (induction js) (simp_all add: length_job_block)

lemma nth_block:
  "k < length js \<Longrightarrow> take 8 (drop (8 * k) (concat (map spec_job_block js))) = spec_job_block (js ! k)"
proof (induction js arbitrary: k)
  case Nil
  then show ?case by simp
next
  case (Cons j js)
  show ?case
  proof (cases k)
    case 0
    then show ?thesis by (simp add: length_job_block)
  next
    case (Suc k')
    with Cons.prems have "k' < length js" by simp
    from Cons.IH [OF this] Suc show ?thesis by (simp add: length_job_block)
  qed
qed

lemma str_join_contains: "s \<in> set ss \<Longrightarrow> \<exists>a b. str_join sep ss = a @ s @ b"
proof (induction sep ss rule: str_join.induct)
  case (1 sep)
  then show ?case by simp
next
  case (2 sep x)
  then have "str_join sep [x] = [] @ s @ []" by simp
  then show ?case by blast
next
  case (3 sep x y ys)
  show ?case
  proof (cases "s = x")
    case True
    then have "str_join sep (x # y # ys) = [] @ s @ (sep @ str_join sep (y # ys))" by simp
    then show ?thesis by blast
  next
    case False
    with 3 obtain a b where "str_join sep (y # ys) = a @ s @ b" by auto
    then have "str_join sep (x # y # ys) = (x @ sep @ a) @ s @ b" by simp
    then show ?thesis by blast
  qed
qed

lemma set_str_join: "set (str_join sep ss) \<subseteq> set sep \<union> (\<Union>s\<in>set ss. set s)"
  by (induction sep ss rule: str_join.induct) auto

lemma printed_job_block:
  "encodable_job j \<Longrightarrow> printed (job_block R (json_of_job j)) = spec_job_block j"
  by (simp add: job_block_typed printed_Print)

lemma fifth_line:
  "encodable_job j \<Longrightarrow> printed (job_block R (json_of_job j)) ! 4 = spec_skills_line (skills j)"
  by (simp add: printed_job_block) (simp add: spec_job_block_def)

lemma no_stop_in_line:
  assumes "\<forall>s\<in>set ss. 46 \<notin> set s"
  shows "46 \<notin> set (skills_label @ str_join (asc '', '') ss)"
proof -
  have "46 \<notin> set skills_label" "46 \<notin> set (asc '', '')"
    by (simp_all add: skills_label_def emoji_tools_def asc_def)
  with assms set_str_join [of "asc '', ''" ss] show ?thesis
    by auto
qed

lemma fetch_json_ok: "fetch_json (net_of (Inr (ok_response v))) rq = ([Get rq], Inr v)"
  by (simp add: fetch_json_def requests_get_def net_of_def ok_response_def bind_run_Inr lift_def)

text \<open>
  C3. The skills line of a job is its label and the skills joined by a comma and a space.
  With at most five skills these are all the skills, and nothing comes after them: every
  skill is part of the line, and the line has no full stop, so no ellipsis marker, unless
  a skill brings one. With more than five skills they are the first five in their order,
  and the ellipsis marker follows. When the strings of the job can be encoded on
  standard output, the block of the job is printed whole, eight lines, and its fifth
  line is the skills line.
\<close>

theorem skills_line_truncation:
  "(length (skills j) \<le> 5 \<longrightarrow>
      skills_line (json_of_job j)
        = Inr ([128736, 65039] @ asc ''  Skills: '' @ str_join (asc '', '') (skills j))
      \<and> (\<forall>s\<in>set (skills j).
            \<exists>a b. [128736, 65039] @ asc ''  Skills: '' @ str_join (asc '', '') (skills j) = a @ s @ b)
      \<and> ((\<forall>s\<in>set (skills j). 46 \<notin> set s) \<longrightarrow>
            46 \<notin> set ([128736, 65039] @ asc ''  Skills: '' @ str_join (asc '', '') (skills j))))
   \<and> (5 < length (skills j) \<longrightarrow>
      skills_line (json_of_job j)
        = Inr ([128736, 65039] @ asc ''  Skills: '' @ str_join (asc '', '') (take 5 (skills j))
               @ asc ''...''))
   \<and> (encodable_job j \<longrightarrow>
      length (printed (job_block R (json_of_job j))) = 8
      \<and> skills_line (json_of_job j) = Inr (printed (job_block R (json_of_job j)) ! 4))"
proof (intro conjI impI ballI)
  have label: "[128736, 65039] @ asc ''  Skills: '' = skills_label"
    by (simp add: skills_label_def emoji_tools_def)
  {
    assume "length (skills j) \<le> 5"
    then show "skills_line (json_of_job j)
        = Inr ([128736, 65039] @ asc ''  Skills: '' @ str_join (asc '', '') (skills j))"
      by (simp add: skills_line_typed spec_skills_line_def skills_label_def emoji_tools_def)
  }
  {
    assume "\<forall>s\<in>set (skills j). 46 \<notin> set s"
    from no_stop_in_line [OF this]
    show "46 \<notin> set ([128736, 65039] @ asc ''  Skills: '' @ str_join (asc '', '') (skills j))"
      by (simp add: skills_label_def emoji_tools_def)
  }
  {
    fix s assume "s \<in> set (skills j)"
    then obtain a b where "str_join (asc '', '') (skills j) = a @ s @ b"
      using str_join_contains by blast
    then have "[128736, 65039] @ asc ''  Skills: '' @ str_join (asc '', '') (skills j)
        = ([128736, 65039] @ asc ''  Skills: '' @ a) @ s @ b"
      by simp
    then show "\<exists>a b. [128736, 65039] @ asc ''  Skills: '' @ str_join (asc '', '') (skills j) = a @ s @ b"
      by blast
  }
  {
    assume "5 < length (skills j)"
    then show "skills_line (json_of_job j)
        = Inr ([128736, 65039] @ asc ''  Skills: '' @ str_join (asc '', '') (take 5 (skills j))
               @ asc ''...'')"
      by (simp add: skills_line_typed spec_skills_line_def skills_label_def emoji_tools_def
          ellipsis_def)
  }
  {
    assume enc: "encodable_job j"
    then show "length (printed (job_block R (json_of_job j))) = 8"
      by (simp add: printed_job_block length_job_block)
    from enc show "skills_line (json_of_job j) = Inr (printed (job_block R (json_of_job j)) ! 4)"
      by (simp add: fifth_line skills_line_typed)
  }
qed

theorem skills_line_truncation_witness:
  "length (skills job_A) \<le> 5
   \<and> encodable_job job_A
   \<and> printed (job_block no_repr (json_of_job job_A)) ! 4 = [128736, 65039] @ asc ''  Skills: Python, SQL''
   \<and> 46 \<notin> set (printed (job_block no_repr (json_of_job job_A)) ! 4)
   \<and> 5 < length (skills job_six)
   \<and> encodable_job job_six
   \<and> printed (job_block no_repr (json_of_job job_six)) ! 4
       = [128736, 65039] @ asc ''  Skills: a, b, c, d, e...''"
proof -
  have few: "length (skills job_A) \<le> 5" and many: "5 < length (skills job_six)"
    by (simp_all add: job_A_def job_six_def)
  have plain: "\<forall>s\<in>set (skills job_A). 46 \<notin> set s"
    by (simp add: job_A_def asc_def)
  have enc: "encodable_job job_A" "encodable_job job_six"
    by (simp_all add: encodable_job_def job_A_def job_six_def encodable_asc)
  have joined:
    "[128736, 65039] @ asc ''  Skills: '' @ str_join (asc '', '') (skills job_A)
       = [128736, 65039] @ asc ''  Skills: Python, SQL''"
    "[128736, 65039] @ asc ''  Skills: '' @ str_join (asc '', '') (take 5 (skills job_six)) @ asc ''...''
       = [128736, 65039] @ asc ''  Skills: a, b, c, d, e...''"
    by (simp_all add: job_A_def job_six_def asc_def)
  note at_A = skills_line_truncation [of job_A no_repr, unfolded joined]
  note at_six = skills_line_truncation [of job_six no_repr, unfolded joined]
  from at_A few enc have "Inr ([128736, 65039] @ asc ''  Skills: Python, SQL'')
      = (Inr (printed (job_block no_repr (json_of_job job_A)) ! 4) :: exception + ustr)"
    by metis
  then have a: "printed (job_block no_repr (json_of_job job_A)) ! 4
      = [128736, 65039] @ asc ''  Skills: Python, SQL''"
    by simp
  from at_A few plain have "46 \<notin> set ([128736, 65039] @ asc ''  Skills: Python, SQL'')"
    by blast
  with a have b: "46 \<notin> set (printed (job_block no_repr (json_of_job job_A)) ! 4)"
    by simp
  from at_six many enc have "Inr ([128736, 65039] @ asc ''  Skills: a, b, c, d, e...'')
      = (Inr (printed (job_block no_repr (json_of_job job_six)) ! 4) :: exception + ustr)"
    by metis
  then have c: "printed (job_block no_repr (json_of_job job_six)) ! 4
      = [128736, 65039] @ asc ''  Skills: a, b, c, d, e...''"
    by simp
  from few many enc a b c show ?thesis
    by (intro conjI)
qed

lemma find_jobs_success:
  assumes "snd (fetch_json net (search_request S L)) = Inr (json_of_result r)" and "success r"
    and "list_all encodable S" and "list_all encodable_job (jobs r)"
  shows "find_jobs_by_skills R net S L
    = (Get (search_request S L)
         # map Print (spec_header (count r) S # replicate 60 61 # concat (map spec_job_block (jobs r))),
       Inr ())"
  by (simp add: find_jobs_served [OF assms(1)] render_success [OF assms(2,3,4)] handle_returned)

lemma find_jobs_failure:
  assumes "snd (fetch_json net (search_request S L)) = Inr (json_of_result r)"
    and "\<not> success r" and "error r = Some m" and "encodable m"
  shows "find_jobs_by_skills R net S L
    = ([Get (search_request S L), Print (emoji_cross @ asc '' Error: '' @ m)], Inr ())"
  by (simp add: find_jobs_served [OF assms(1)] render_failure [OF assms(2,3,4)] handle_returned)

text \<open>
  C4. When the service answers a search with a result whose success flag is false, and
  the message of the result can be encoded on standard output, the run is the request
  and one printed line, the error line with the message: no header, no job block,
  whatever the count and the jobs of the result are. (A SearchResult that is not a
  success has its error message, by the invariant of the data model.)
\<close>

theorem failure_prints_one_error_line:
  assumes "snd (fetch_json net (search_request S L)) = Inr (json_of_result r)"
    and "\<not> success r" and "error r = Some m" and "encodable m"
  shows "find_jobs_by_skills R net S L
      = ([Get (search_request S L), Print (10060 # asc '' Error: '' @ m)], Inr ())
    \<and> printed (find_jobs_by_skills R net S L) = [10060 # asc '' Error: '' @ m]"
  by (simp add: find_jobs_failure [OF assms] printed_def emoji_cross_def)

theorem failure_prints_one_error_line_witness:
  "snd (fetch_json net_rejected (search_request [asc ''Rust''] (Some 20)))
     = Inr (json_of_result result_rejected)
   \<and> \<not> success result_rejected
   \<and> error result_rejected = Some (asc ''Database unavailable'')
   \<and> encodable (asc ''Database unavailable'')
   \<and> count result_rejected = 7 \<and> length (jobs result_rejected) = 1
   \<and> printed (find_jobs_by_skills no_repr net_rejected [asc ''Rust''] (Some 20))
      = [10060 # asc '' Error: Database unavailable'']"
proof -
  have served: "snd (fetch_json net_rejected (search_request [asc ''Rust''] (Some 20)))
      = Inr (json_of_result result_rejected)"
    by (simp add: net_rejected_def fetch_json_ok)
  have rejected: "\<not> success result_rejected"
    and message: "error result_rejected = Some (asc ''Database unavailable'')"
    and ignored: "count result_rejected = 7" "length (jobs result_rejected) = 1"
    by (simp_all add: result_rejected_def)
  have enc: "encodable (asc ''Database unavailable'')"
    by (rule encodable_asc)
  have shown: "asc '' Error: '' @ asc ''Database unavailable'' = asc '' Error: Database unavailable''"
    by (simp add: asc_def)
  note at_rejected = failure_prints_one_error_line
    [OF served rejected message enc, of no_repr, unfolded shown]
  from at_rejected
  have "printed (find_jobs_by_skills no_repr net_rejected [asc ''Rust''] (Some 20))
      = [10060 # asc '' Error: Database unavailable'']"
    by (rule conjunct2)
  with served rejected message enc ignored show ?thesis
    by (intro conjI)
qed

text \<open>
  C5. When the service answers with a successful result of \<open>N\<close> jobs, and the requested
  skills and the strings of the jobs can be encoded on standard output, the printed lines
  are the header with the reported count and the requested skills, a rule, and the \<open>N\<close>
  blocks of the jobs in their order: the header occurs exactly once, each block has eight
  lines, the \<open>k\<close>-th block is that of the \<open>k\<close>-th job, and with no job the header and
  the rule are all that is printed.
\<close>

theorem success_prints_header_and_blocks:
  assumes "snd (fetch_json net (search_request S L)) = Inr (json_of_result r)" and "success r"
    and "list_all encodable S" and "list_all encodable_job (jobs r)"
  shows "printed (find_jobs_by_skills R net S L)
      = spec_header (count r) S # replicate 60 61 # concat (map spec_job_block (jobs r))
    \<and> snd (find_jobs_by_skills R net S L) = Inr ()
    \<and> count_list (printed (find_jobs_by_skills R net S L)) (spec_header (count r) S) = 1
    \<and> length (printed (find_jobs_by_skills R net S L)) = 2 + 8 * length (jobs r)
    \<and> (\<forall>k<length (jobs r).
          take 8 (drop (2 + 8 * k) (printed (find_jobs_by_skills R net S L)))
            = spec_job_block (jobs r ! k))
    \<and> (jobs r = [] \<longrightarrow>
          printed (find_jobs_by_skills R net S L) = [spec_header (count r) S, replicate 60 61])"
proof -
  let ?blocks = "concat (map spec_job_block (jobs r))"
  have out: "printed (find_jobs_by_skills R net S L) = spec_header (count r) S # replicate 60 61 # ?blocks"
    unfolding find_jobs_success [OF assms] printed_Get by (rule printed_Print)
  have once: "count_list (spec_header (count r) S # replicate 60 61 # ?blocks) (spec_header (count r) S) = 1"
    using header_not_in_blocks [of "count r" S "jobs r"] header_not_rule [of "count r" S]
    by (simp add: count_list_0_iff)
  have nth: "take 8 (drop (2 + 8 * k) (spec_header (count r) S # replicate 60 61 # ?blocks))
      = spec_job_block (jobs r ! k)" if "k < length (jobs r)" for k
    using nth_block [OF that] by simp
  show ?thesis
    unfolding out using once nth
    by (simp add: find_jobs_success [OF assms] length_blocks)
qed

theorem success_prints_header_and_blocks_witness:
  "snd (fetch_json net_found (search_request [asc ''Python''] (Some 20))) = Inr (json_of_result result_A)
   \<and> success result_A \<and> length (jobs result_A) = 1
   \<and> list_all encodable [asc ''Python''] \<and> list_all encodable_job (jobs result_A)
   \<and> printed (find_jobs_by_skills no_repr net_found [asc ''Python''] (Some 20))
      = [127919 # asc '' Found 1 jobs matching skills: Python'',
         asc ''============================================================'',
         128203 # asc '' Backend Engineer'',
         127970 # asc '' Company: Acme'',
         128205 # asc '' Location: Remote'',
         128279 # asc '' URL: http://x'',
         [128736, 65039] @ asc ''  Skills: Python, SQL'',
         128197 # asc '' Posted: 2024-01-01'',
         127760 # asc '' Source: example'',
         asc ''------------------------------------------------------------'']
   \<and> success result_none \<and> jobs result_none = []
   \<and> printed (find_jobs_by_skills no_repr (net_of (Inr (ok_response (json_of_result result_none))))
         [asc ''Python''] (Some 20))
      = [127919 # asc '' Found 0 jobs matching skills: Python'',
         asc ''============================================================'']"
proof -
  let ?rq = "search_request [asc ''Python''] (Some 20)"
  let ?net0 = "net_of (Inr (ok_response (json_of_result result_none)))"
  have servedA: "snd (fetch_json net_found ?rq) = Inr (json_of_result result_A)"
    and served0: "snd (fetch_json ?net0 ?rq) = Inr (json_of_result result_none)"
    by (simp_all add: net_found_def fetch_json_ok)
  have okA: "success result_A" and ok0: "success result_none"
    and one: "length (jobs result_A) = 1" and none: "jobs result_none = []"
    by (simp_all add: result_A_def result_none_def)
  have encS: "list_all encodable [asc ''Python'']"
    and encA: "list_all encodable_job (jobs result_A)"
    and enc0: "list_all encodable_job (jobs result_none)"
    by (simp_all add: result_A_def result_none_def job_A_def encodable_job_def encodable_asc)
  have headers:
    "spec_header (count result_A) [asc ''Python'']
       = 127919 # asc '' Found 1 jobs matching skills: Python''"
    "spec_header (count result_none) [asc ''Python'']
       = 127919 # asc '' Found 0 jobs matching skills: Python''"
    by (simp_all add: spec_header_def result_A_def result_none_def str_int_def dec_nat.simps asc_def
        emoji_target_def)
  have rules: "replicate 60 (61::nat) = asc ''============================================================''"
    "replicate 60 (45::nat) = asc ''------------------------------------------------------------''"
    by (simp_all add: asc_def eval_nat_numeral)
  have block: "concat (map spec_job_block (jobs result_A))
      = [128203 # asc '' Backend Engineer'',
         127970 # asc '' Company: Acme'',
         128205 # asc '' Location: Remote'',
         128279 # asc '' URL: http://x'',
         [128736, 65039] @ asc ''  Skills: Python, SQL'',
         128197 # asc '' Posted: 2024-01-01'',
         127760 # asc '' Source: example'',
         asc ''------------------------------------------------------------'']"
    by (simp add: result_A_def job_A_def spec_job_block_def spec_skills_line_def skills_label_def
        emoji_clipboard_def emoji_office_def emoji_pin_def emoji_link_def emoji_tools_def
        emoji_calendar_def emoji_globe_def rules) (simp add: asc_def)
  note outA = success_prints_header_and_blocks
    [OF servedA okA encS encA, of no_repr, THEN conjunct1, unfolded headers block rules]
  note out0 = success_prints_header_and_blocks
    [OF served0 ok0 encS enc0, of no_repr, THEN conjunct1, unfolded headers none rules]
  from out0 have "printed (find_jobs_by_skills no_repr ?net0 [asc ''Python''] (Some 20))
      = [127919 # asc '' Found 0 jobs matching skills: Python'',
         asc ''============================================================'']"
    by simp
  with outA servedA served0 okA ok0 one none encS encA show ?thesis
    by (intro conjI)
qed

text \<open>
  The other path of \<^verbatim>\<open>print\<close>: a job whose title is a lone surrogate. The header and the
  rule are printed, the \<^verbatim>\<open>print\<close> of the title raises, and \<^verbatim>\<open>UnicodeEncodeError\<close> is not a
  \<^verbatim>\<open>RequestException\<close>: it leaves \<^verbatim>\<open>find_jobs_by_skills\<close>.
\<close>

lemma surrogate_title_raises:
  "find_jobs_by_skills R (net_of (Inr (ok_response (json_of_result result_surrogate)))) [asc ''Python'']
     (Some 20)
   = ([Get (search_request [asc ''Python''] (Some 20)),
       Print (127919 # asc '' Found 1 jobs matching skills: Python''),
       Print (replicate 60 61)],
      Inl UnicodeEncodeError)"
proof -
  have "job_block R (json_of_job (job_A\<lparr>title := [55296]\<rparr>)) = ([], Inl UnicodeEncodeError)"
    by (simp add: job_block_def field_line_def job_fields bind_exc_def print_expr_def lift_def
        bind_run_Inr bind_run_Inl print_fails encodable_simps emoji_clipboard_def)
  moreover have "spec_header (count result_surrogate) [asc ''Python'']
      = 127919 # asc '' Found 1 jobs matching skills: Python''"
    by (simp add: spec_header_def result_surrogate_def str_int_def dec_nat.simps emoji_target_def
        asc_def)
  then have "header_line R [asc ''Python''] (json_of_result result_surrogate)
      = Inr (127919 # asc '' Found 1 jobs matching skills: Python'')"
    by (simp only: header_line_typed)
  moreover have "encodable (127919 # asc '' Found 1 jobs matching skills: Python'')"
    "encodable (replicate 60 (61::nat))"
    by (simp_all add: encodable_simps encodable_asc encodable_replicate)
  ultimately have "render R [asc ''Python''] (json_of_result result_surrogate)
      = ([Print (127919 # asc '' Found 1 jobs matching skills: Python''), Print (replicate 60 61)],
         Inl UnicodeEncodeError)"
    by (simp add: render_def result_fields result_surrogate_def bind_exc_def lift_def print_ok
        print_expr_Inr bind_run_Inr bind_run_Inl return_run_def)
  then show ?thesis
    by (simp add: find_jobs_served fetch_json_ok handle_request_errors_def)
qed

subsection \<open>The catalog of skills\<close>

lemma fetch_json_cases:
  "fetch_json net rq =
     ([Get rq],
      case net rq of
        Inl e \<Rightarrow> Inl e
      | Inr resp \<Rightarrow> (case raise_for_status resp of Some e \<Rightarrow> Inl e | None \<Rightarrow> json resp))"
  by (simp add: fetch_json_def requests_get_def bind_run_def raise_def lift_def
      split: sum.splits option.splits)

lemma get_available_skills_try_cases:
  "get_available_skills_try net =
     ([Get skills_request],
      case snd (fetch_json net skills_request) of
        Inl e \<Rightarrow> Inl e
      | Inr data \<Rightarrow>
          (case getitem data (asc ''success'') of
             Inl e \<Rightarrow> Inl e
           | Inr ok \<Rightarrow>
               if truthy ok then
                 (case getitem data (asc ''skills'') of Inl e \<Rightarrow> Inl e | Inr v \<Rightarrow> Inr (Some v))
               else Inr None))"
  by (simp add: get_available_skills_try_def fetch_json_cases bind_run_def lift_def return_run_def
      split: sum.splits)

lemma get_available_skills_cases:
  "get_available_skills net =
     ([Get skills_request],
      Inr (case snd (get_available_skills_try net) of
             Inl e \<Rightarrow> PList []
           | Inr None \<Rightarrow> PNone
           | Inr (Some v) \<Rightarrow> v))"
  by (simp add: get_available_skills_def get_available_skills_try_cases
      split: sum.splits option.splits)


lemma print_fixed_lines:
  "print usage_line = ([Print usage_line], Inr ())"
  "print available_line = ([Print available_line], Inr ())"
  "print could_not_fetch_line = ([Print could_not_fetch_line], Inr ())"
  "print example_line = ([Print example_line], Inr ())"
  by (simp_all add: print_ok usage_line_def available_line_def could_not_fetch_line_def
      example_line_def encodable_simps encodable_asc)

lemma main_guidance:
  "length argv < 2 \<Longrightarrow> get_available_skills net = ([Get skills_request], Inr v) \<Longrightarrow>
   main R net argv
     = bind_run ([Print usage_line, Print available_line, Get skills_request], Inr ())
         (\<lambda>u. bind_run (show_catalog R v) (\<lambda>u. ([Print example_line], Inl (SystemExit 1))))"
  by (simp add: main_def print_fixed_lines raise_def return_run_def)
     (simp add: bind_run_def split: sum.splits prod.splits)

lemma show_catalog_falsy: "\<not> truthy v \<Longrightarrow> show_catalog R v = ([Print could_not_fetch_line], Inr ())"
  by (simp add: show_catalog_def print_fixed_lines)









text \<open>
  C10. When the body of the catalog response is decoded and its success flag is not true,
  \<^verbatim>\<open>get_available_skills\<close> returns \<^verbatim>\<open>None\<close>, not the empty list; \<^verbatim>\<open>None\<close> is false in the
  test of \<^verbatim>\<open>main\<close>, which so prints the line that the skills could not be fetched. The
  empty list is what the function returns when its \<^verbatim>\<open>try\<close> block raises; it returns an
  empty list otherwise only when the body itself carries one as its skills.
\<close>

theorem false_flag_returns_None:
  "(snd (fetch_json net skills_request) = Inr data \<and> getitem data (asc ''success'') = Inr ok
      \<and> \<not> truthy ok \<longrightarrow>
        get_available_skills net = ([Get skills_request], Inr PNone)
        \<and> PNone \<noteq> PList [] \<and> \<not> truthy PNone
        \<and> show_catalog R PNone = ([Print could_not_fetch_line], Inr ())
        \<and> (length argv < 2 \<longrightarrow> main R net argv = (guidance_without_catalog, Inl (SystemExit 1))))
   \<and> (snd (get_available_skills_try net) = Inl e \<longrightarrow>
        get_available_skills net = ([Get skills_request], Inr (PList [])))
   \<and> (snd (get_available_skills net) = Inr (PList []) \<longrightarrow>
        (\<exists>e. snd (get_available_skills_try net) = Inl e)
        \<or> snd (get_available_skills_try net) = Inr (Some (PList [])))"
proof (intro conjI impI)
  assume a: "snd (fetch_json net skills_request) = Inr data \<and> getitem data (asc ''success'') = Inr ok
      \<and> \<not> truthy ok"
  then show none: "get_available_skills net = ([Get skills_request], Inr PNone)"
    by (simp add: get_available_skills_cases get_available_skills_try_cases)
  show "PNone \<noteq> PList []" "\<not> truthy PNone"
    by simp_all
  show "show_catalog R PNone = ([Print could_not_fetch_line], Inr ())"
    by (simp add: show_catalog_falsy)
  show "main R net argv = (guidance_without_catalog, Inl (SystemExit 1))" if "length argv < 2"
    by (simp add: main_guidance [OF that none] show_catalog_falsy bind_run_Inr bind_run_Inl
        guidance_without_catalog_def)
next
  assume "snd (get_available_skills_try net) = Inl e"
  then show "get_available_skills net = ([Get skills_request], Inr (PList []))"
    by (simp add: get_available_skills_cases)
next
  assume "snd (get_available_skills net) = Inr (PList [])"
  then show "(\<exists>e. snd (get_available_skills_try net) = Inl e)
      \<or> snd (get_available_skills_try net) = Inr (Some (PList []))"
    by (auto simp: get_available_skills_cases split: sum.splits option.splits)
qed

theorem false_flag_returns_None_witness:
  "snd (fetch_json net_flag_false skills_request) = Inr (json_of_catalog False [asc ''Python''])
   \<and> getitem (json_of_catalog False [asc ''Python'']) (asc ''success'') = Inr (PBool False)
   \<and> \<not> truthy (PBool False)
   \<and> get_available_skills net_flag_false = ([Get skills_request], Inr PNone)
   \<and> length [script_name] < 2
   \<and> main no_repr net_flag_false [script_name] = (guidance_without_catalog, Inl (SystemExit 1))
   \<and> snd (get_available_skills_try net_refused) = Inl (ConnectionError (asc ''Connection refused''))
   \<and> get_available_skills net_refused = ([Get skills_request], Inr (PList []))"
proof -
  have served: "snd (fetch_json net_flag_false skills_request) = Inr (json_of_catalog False [asc ''Python''])"
    by (simp add: net_flag_false_def fetch_json_ok)
  have flag: "getitem (json_of_catalog False [asc ''Python'']) (asc ''success'') = Inr (PBool False)"
    by (simp add: json_of_catalog_def asc_def)
  have falsy: "\<not> truthy (PBool False)" and no_args: "length [script_name] < 2"
    by simp_all
  have refused: "snd (get_available_skills_try net_refused) = Inl (ConnectionError (asc ''Connection refused''))"
    by (simp add: get_available_skills_try_cases fetch_json_cases net_refused_def net_of_def)
  note at_false = false_flag_returns_None
    [where net = net_flag_false and data = "json_of_catalog False [asc ''Python'']"
      and ok = "PBool False" and R = no_repr and argv = "[script_name]"]
  note at_refused = false_flag_returns_None
    [where net = net_refused and e = "ConnectionError (asc ''Connection refused'')"]
  from at_false served flag falsy no_args
  have "get_available_skills net_flag_false = ([Get skills_request], Inr PNone)"
    "main no_repr net_flag_false [script_name] = (guidance_without_catalog, Inl (SystemExit 1))"
    by blast+
  moreover from at_refused refused
  have "get_available_skills net_refused = ([Get skills_request], Inr (PList []))"
    by blast
  ultimately have
    "get_available_skills net_flag_false = ([Get skills_request], Inr PNone)"
    "main no_repr net_flag_false [script_name] = (guidance_without_catalog, Inl (SystemExit 1))"
    "get_available_skills net_refused = ([Get skills_request], Inr (PList []))"
    by blast+
  with served flag falsy no_args refused show ?thesis
    by (intro conjI)
qed

subsection \<open>Failures of the search request\<close>

lemma connection_is_request: "is_ConnectionError e \<Longrightarrow> is_RequestException e"
  by (cases e) simp_all

lemma handle_connection_error:
  "is_ConnectionError e \<Longrightarrow>
   handle_request_errors (t, Inl e)
     = (t @ [Print (emoji_cross @ asc '' Could not connect to the API server.''),
             Print (asc ''Make sure the server is running: npm start'')], Inr ())"
  by (simp add: handle_request_errors_def bind_run_Inr print_ok return_run_def encodable_simps
      encodable_emoji encodable_asc)

lemma handle_request_exception:
  "is_RequestException e \<Longrightarrow> \<not> is_ConnectionError e \<Longrightarrow> encodable (str_exception e) \<Longrightarrow>
   handle_request_errors (t, Inl e)
     = (t @ [Print (emoji_cross @ asc '' Request failed: '' @ str_exception e)], Inr ())"
  by (simp add: handle_request_errors_def bind_run_Inr print_ok encodable_simps encodable_emoji
      encodable_asc)

lemma handle_request_exception_unprinted:
  "is_RequestException e \<Longrightarrow> \<not> is_ConnectionError e \<Longrightarrow> \<not> encodable (str_exception e) \<Longrightarrow>
   handle_request_errors (t, Inl e) = (t, Inl UnicodeEncodeError)"
  by (simp add: handle_request_errors_def bind_run_Inr print_fails encodable_simps)

lemma handle_other: "\<not> is_RequestException e \<Longrightarrow> handle_request_errors (t, Inl e) = (t, Inl e)"
  using connection_is_request [of e] by (auto simp: handle_request_errors_def)

lemma handle_raises: "snd (handle_request_errors m) = Inl e \<Longrightarrow> \<not> is_RequestException e"
proof (cases m)
  case (Pair t r)
  show "snd (handle_request_errors m) = Inl e \<Longrightarrow> \<not> is_RequestException e"
  proof (cases r)
    case (Inl e')
    assume raised: "snd (handle_request_errors m) = Inl e"
    show ?thesis
    proof (cases "is_RequestException e'")
      case True
      show ?thesis
      proof (cases "is_ConnectionError e'")
        case True
        with raised Pair Inl show ?thesis
          by (simp add: handle_connection_error)
      next
        case False
        with \<open>is_RequestException e'\<close> raised Pair Inl show ?thesis
          using handle_request_exception [of e' t] handle_request_exception_unprinted [of e' t]
          by (cases "encodable (str_exception e')") auto
      qed
    next
      case False
      then show ?thesis
        using raised Pair Inl by (simp add: handle_other)
    qed
  next
    case (Inr u)
    assume "snd (handle_request_errors m) = Inl e"
    then show ?thesis
      using Pair Inr by (simp add: handle_returned)
  qed
qed

lemma find_jobs_raised:
  "snd (fetch_json net (search_request S L)) = Inl e \<Longrightarrow>
   find_jobs_by_skills R net S L = handle_request_errors ([Get (search_request S L)], Inl e)"
  using fetch_json_eq [of net "search_request S L" "Inl e"]
  by (simp add: find_jobs_by_skills_def bind_run_Inl)

lemma getitem_raises: "getitem v k = Inl e \<Longrightarrow> \<not> is_RequestException e"
  by (cases v) (auto split: option.splits)

lemma render_no_flag: "getitem data (asc ''success'') = Inl e \<Longrightarrow> render R S data = ([], Inl e)"
  by (simp add: render_def lift_def bind_run_Inl)

lemma find_jobs_no_flag:
  assumes "snd (fetch_json net (search_request S L)) = Inr data"
    and "getitem data (asc ''success'') = Inl e"
  shows "find_jobs_by_skills R net S L = ([Get (search_request S L)], Inl e)"
  by (simp add: find_jobs_served [OF assms(1)] render_no_flag [OF assms(2)]
      handle_other [OF getitem_raises [OF assms(2)]])

lemma empty_body_served:
  "snd (fetch_json net_empty_body rq) = Inr (PDict [])"
  "getitem (PDict []) (asc ''success'') = Inl (KeyError (asc ''success''))"
  by (simp_all add: net_empty_body_def fetch_json_ok)

lemma find_jobs_empty_body:
  "find_jobs_by_skills R net_empty_body S L
     = ([Get (search_request S L)], Inl (KeyError (asc ''success'')))"
  by (rule find_jobs_no_flag [OF empty_body_served])

text \<open>
  C9, as the script has it. When a call of the \<^verbatim>\<open>requests\<close> library raises a
  \<^verbatim>\<open>RequestException\<close> (no connection, a timeout, an error status, a response the library
  rejects), \<^verbatim>\<open>find_jobs_by_skills\<close> catches it, prints its message and returns: the two
  lines that the server could not be reached for a \<^verbatim>\<open>ConnectionError\<close>, the line
  \<^verbatim>\<open>Request failed:\<close> with the text of the exception otherwise (a text that standard
  output can encode). No \<^verbatim>\<open>RequestException\<close> leaves the function. The \<^verbatim>\<open>except\<close>
  clauses name \<^verbatim>\<open>RequestException\<close> only: the \<^verbatim>\<open>KeyError\<close> or \<^verbatim>\<open>TypeError\<close> of a decoded
  body that has no key \<^verbatim>\<open>success\<close> is not caught, and leaves the function.
\<close>

theorem request_failures_are_reported:
  "(snd (fetch_json net (search_request S L)) = Inl e \<and> is_ConnectionError e \<longrightarrow>
      find_jobs_by_skills R net S L
        = ([Get (search_request S L),
            Print (10060 # asc '' Could not connect to the API server.''),
            Print (asc ''Make sure the server is running: npm start'')], Inr ()))
   \<and> (snd (fetch_json net (search_request S L)) = Inl e \<and> is_RequestException e
        \<and> \<not> is_ConnectionError e \<and> encodable (str_exception e) \<longrightarrow>
      find_jobs_by_skills R net S L
        = ([Get (search_request S L),
            Print (10060 # asc '' Request failed: '' @ str_exception e)], Inr ()))
   \<and> (snd (find_jobs_by_skills R net S L) = Inl e' \<longrightarrow> \<not> is_RequestException e')
   \<and> (snd (fetch_json net (search_request S L)) = Inr data
        \<and> getitem data (asc ''success'') = Inl e' \<longrightarrow>
      find_jobs_by_skills R net S L = ([Get (search_request S L)], Inl e'))"
proof (intro conjI impI)
  assume "snd (fetch_json net (search_request S L)) = Inl e \<and> is_ConnectionError e"
  then show "find_jobs_by_skills R net S L
      = ([Get (search_request S L),
          Print (10060 # asc '' Could not connect to the API server.''),
          Print (asc ''Make sure the server is running: npm start'')], Inr ())"
    by (simp add: find_jobs_raised handle_connection_error emoji_cross_def)
next
  assume "snd (fetch_json net (search_request S L)) = Inl e \<and> is_RequestException e
      \<and> \<not> is_ConnectionError e \<and> encodable (str_exception e)"
  then show "find_jobs_by_skills R net S L
      = ([Get (search_request S L),
          Print (10060 # asc '' Request failed: '' @ str_exception e)], Inr ())"
    by (simp add: find_jobs_raised handle_request_exception emoji_cross_def)
next
  assume "snd (find_jobs_by_skills R net S L) = Inl e'"
  then show "\<not> is_RequestException e'"
    unfolding find_jobs_by_skills_def by (rule handle_raises)
next
  assume "snd (fetch_json net (search_request S L)) = Inr data
      \<and> getitem data (asc ''success'') = Inl e'"
  then show "find_jobs_by_skills R net S L = ([Get (search_request S L)], Inl e')"
    using find_jobs_no_flag by blast
qed

theorem request_failures_are_reported_witness:
  "snd (fetch_json net_refused (search_request [asc ''Rust''] (Some 20)))
     = Inl (ConnectionError (asc ''Connection refused''))
   \<and> is_ConnectionError (ConnectionError (asc ''Connection refused''))
   \<and> find_jobs_by_skills no_repr net_refused [asc ''Rust''] (Some 20)
       = ([Get (search_request [asc ''Rust''] (Some 20)),
           Print (10060 # asc '' Could not connect to the API server.''),
           Print (asc ''Make sure the server is running: npm start'')], Inr ())
   \<and> snd (fetch_json net_timeout (search_request [asc ''Rust''] (Some 20)))
       = Inl (RequestException (asc ''Read timed out.''))
   \<and> is_RequestException (RequestException (asc ''Read timed out.''))
   \<and> \<not> is_ConnectionError (RequestException (asc ''Read timed out.''))
   \<and> encodable (str_exception (RequestException (asc ''Read timed out.'')))
   \<and> find_jobs_by_skills no_repr net_timeout [asc ''Rust''] (Some 20)
       = ([Get (search_request [asc ''Rust''] (Some 20)),
           Print (10060 # asc '' Request failed: Read timed out.'')], Inr ())
   \<and> snd (fetch_json net_empty_body (search_request [asc ''Rust''] (Some 20))) = Inr (PDict [])
   \<and> getitem (PDict []) (asc ''success'') = Inl (KeyError (asc ''success''))
   \<and> find_jobs_by_skills no_repr net_empty_body [asc ''Rust''] (Some 20)
       = ([Get (search_request [asc ''Rust''] (Some 20))], Inl (KeyError (asc ''success'')))
   \<and> \<not> is_RequestException (KeyError (asc ''success''))"
proof -
  let ?rq = "search_request [asc ''Rust''] (Some 20)"
  have refused: "snd (fetch_json net_refused ?rq) = Inl (ConnectionError (asc ''Connection refused''))"
    and timeout: "snd (fetch_json net_timeout ?rq) = Inl (RequestException (asc ''Read timed out.''))"
    by (simp_all add: fetch_json_cases net_refused_def net_timeout_def net_of_def)
  have classes: "is_ConnectionError (ConnectionError (asc ''Connection refused''))"
    "is_RequestException (RequestException (asc ''Read timed out.''))"
    "\<not> is_ConnectionError (RequestException (asc ''Read timed out.''))"
    by simp_all
  have enc: "encodable (str_exception (RequestException (asc ''Read timed out.'')))"
    by (simp add: encodable_asc)
  have shown: "asc '' Request failed: '' @ str_exception (RequestException (asc ''Read timed out.''))
      = asc '' Request failed: Read timed out.''"
    by (simp add: asc_def)
  note at_refused = request_failures_are_reported
    [where net = net_refused and S = "[asc ''Rust'']" and L = "Some 20" and R = no_repr
      and e = "ConnectionError (asc ''Connection refused'')"]
  note at_timeout = request_failures_are_reported
    [where net = net_timeout and S = "[asc ''Rust'']" and L = "Some 20" and R = no_repr
      and e = "RequestException (asc ''Read timed out.'')", unfolded shown]
  note at_empty = request_failures_are_reported
    [where net = net_empty_body and S = "[asc ''Rust'']" and L = "Some 20" and R = no_repr
      and data = "PDict []" and e' = "KeyError (asc ''success'')"]
  from at_refused refused classes
  have a: "find_jobs_by_skills no_repr net_refused [asc ''Rust''] (Some 20)
      = ([Get ?rq, Print (10060 # asc '' Could not connect to the API server.''),
          Print (asc ''Make sure the server is running: npm start'')], Inr ())"
    by blast
  from at_timeout timeout classes enc
  have b: "find_jobs_by_skills no_repr net_timeout [asc ''Rust''] (Some 20)
      = ([Get ?rq, Print (10060 # asc '' Request failed: Read timed out.'')], Inr ())"
    by blast
  note served = empty_body_served(1) [of ?rq] empty_body_served(2)
  from at_empty served
  have c: "find_jobs_by_skills no_repr net_empty_body [asc ''Rust''] (Some 20)
      = ([Get ?rq], Inl (KeyError (asc ''success'')))"
    by blast
  then have "snd (find_jobs_by_skills no_repr net_empty_body [asc ''Rust''] (Some 20))
      = Inl (KeyError (asc ''success''))"
    by simp
  with at_empty have d: "\<not> is_RequestException (KeyError (asc ''success''))"
    by blast
  from refused timeout classes enc served a b c d show ?thesis
    by (intro conjI)
qed

theorem missing_key_counterexample:
  "find_jobs_by_skills no_repr net_empty_body [asc ''Python''] (Some 20)
     = ([Get (search_request [asc ''Python''] (Some 20))], Inl (KeyError (asc ''success'')))
   \<and> printed (main no_repr net_empty_body [script_name, asc ''Python''])
     = [emoji_rocket @ asc '' Job Posting Aggregator - Skills Search'', replicate 50 61]
   \<and> snd (main no_repr net_empty_body [script_name, asc ''Python''])
     = Inl (KeyError (asc ''success''))"
  by (simp add: main_search find_jobs_empty_body printed_def)

subsection \<open>The exit status\<close>


lemma for_each_print:
  "list_all (\<lambda>p. encodable (f p)) xs \<Longrightarrow>
   for_each (\<lambda>p. print (f p)) xs = (map (\<lambda>p. Print (f p)) xs, Inr ())"
  by (induction xs) (simp_all add: return_run_def print_ok bind_run_Inr)









lemma exit_status_search:
  "2 \<le> length argv \<Longrightarrow> snd (find_jobs_by_skills R net (drop 1 argv) (Some 20)) = Inr () \<Longrightarrow>
   exit_status (main R net argv) = 0"
  by (simp add: main_search)




subsection \<open>The display of the catalog\<close>

lemma dec_nat_digit: "n < 10 \<Longrightarrow> dec_nat n = [48 + n]"
  by (simp add: dec_nat.simps)

lemma dec_nat_two: "10 \<le> n \<Longrightarrow> n < 100 \<Longrightarrow> dec_nat n = [48 + n div 10, 48 + n mod 10]"
  by (subst dec_nat.simps) (simp add: dec_nat_digit)

lemma format_2d_small:
  "n < 100 \<Longrightarrow> format_2d (int n) = [if n < 10 then 32 else 48 + n div 10, 48 + n mod 10]"
  by (cases "n < 10") (simp_all add: format_2d_def str_int_def dec_nat_digit dec_nat_two)

lemma enumerate1_nth: "i < length xs \<Longrightarrow> enumerate1 xs ! i = (int (Suc i), xs ! i)"
  by (simp add: enumerate1_def del: upt_Suc)

lemma length_enumerate1: "length (enumerate1 xs) = length xs"
  by (simp add: enumerate1_def del: upt_Suc)

lemma entries_typed:
  "map (entry_line R) (enumerate1 (map PStr (take 20 cat)))
     = map (\<lambda>i. asc ''  '' @ format_2d (int (Suc i)) @ asc ''. '' @ cat ! i) [0 ..< min 20 (length cat)]"
  by (rule nth_equalityI)
     (simp_all add: length_enumerate1 enumerate1_nth entry_line_def min.commute)

lemma encodable_entries:
  "list_all encodable ss \<Longrightarrow> list_all (\<lambda>p. encodable (entry_line R p)) (enumerate1 (map PStr ss))"
  by (simp add: list_all_length length_enumerate1 enumerate1_nth entry_line_def encodable_simps
      encodable_asc encodable_format_2d)

lemma print_summary:
  "print (asc ''     ... and '' @ str_int k @ asc '' more'')
     = ([Print (asc ''     ... and '' @ str_int k @ asc '' more'')], Inr ())"
  by (simp add: print_ok encodable_simps encodable_asc encodable_str_int)

lemma show_catalog_typed:
  assumes "list_all encodable (take 20 cat)"
  shows "show_catalog R (PList (map PStr cat))
     = (map Print (if cat = [] then [could_not_fetch_line] else spec_catalog_lines cat), Inr ())"
proof (cases "cat = []")
  case True
  then show ?thesis
    by (simp add: show_catalog_falsy)
next
  case False
  have "for_each (\<lambda>p. print (entry_line R p)) (enumerate1 (map PStr (take 20 cat)))
      = (map Print (map (entry_line R) (enumerate1 (map PStr (take 20 cat)))), Inr ())"
    using for_each_print [OF encodable_entries [OF assms], of R] by simp
  then show ?thesis
    using False unfolding entries_typed
    by (simp add: show_catalog_def lift_def print_summary return_run_def bind_exc_def
        bind_run_Inr take_map spec_catalog_lines_def more_line_def)
qed

lemma catalog_served:
  "snd (fetch_json net skills_request) = Inr (json_of_catalog True cat) \<Longrightarrow>
   get_available_skills net = ([Get skills_request], Inr (PList (map PStr cat)))"
  by (simp add: get_available_skills_cases get_available_skills_try_cases json_of_catalog_def asc_def)

lemma main_catalog:
  assumes "snd (fetch_json net skills_request) = Inr (json_of_catalog True cat)"
    and "length argv < 2" and "list_all encodable (take 20 cat)"
  shows "main R net argv
    = (Print usage_line # Print available_line # Get skills_request
         # map Print ((if cat = [] then [could_not_fetch_line] else spec_catalog_lines cat) @ [example_line]),
       Inl (SystemExit 1))"
  by (simp add: main_guidance [OF assms(2) catalog_served [OF assms(1)]]
      show_catalog_typed [OF assms(3)] bind_run_Inr bind_run_Inl)

lemma summary_nth3: "(asc ''     ... and '' @ str_int k @ asc '' more'') ! 3 = 32"
  by (simp add: asc_def)

lemma entry_nth3:
  "i < 20 \<Longrightarrow> (asc ''  '' @ format_2d (int (Suc i)) @ rest) ! 3 = 48 + Suc i mod 10"
  using format_2d_small [of "Suc i"] by (simp add: asc_def del: of_nat_Suc)

lemma entry_not_summary:
  "i < 20 \<Longrightarrow> asc ''  '' @ format_2d (int (Suc i)) @ rest \<noteq> asc ''     ... and '' @ str_int k @ asc '' more''"
proof
  assume "i < 20"
    and "asc ''  '' @ format_2d (int (Suc i)) @ rest = asc ''     ... and '' @ str_int k @ asc '' more''"
  then have "48 + Suc i mod 10 = (32::nat)"
    using entry_nth3 [of i rest] summary_nth3 [of k] by simp
  then show False
    by simp
qed

lemma fixed_not_summary:
  "usage_line \<noteq> asc ''     ... and '' @ str_int k @ asc '' more''"
  "available_line \<noteq> asc ''     ... and '' @ str_int k @ asc '' more''"
  "example_line \<noteq> asc ''     ... and '' @ str_int k @ asc '' more''"
  "could_not_fetch_line \<noteq> asc ''     ... and '' @ str_int k @ asc '' more''"
  by (simp_all add: usage_line_def available_line_def example_line_def could_not_fetch_line_def
      asc_def)

lemma summary_in_catalog:
  "asc ''     ... and '' @ str_int k @ asc '' more'' \<in> set (spec_catalog_lines cat) \<Longrightarrow> 20 < length cat"
proof (rule ccontr)
  assume member: "asc ''     ... and '' @ str_int k @ asc '' more'' \<in> set (spec_catalog_lines cat)"
    and "\<not> 20 < length cat"
  then obtain i where "i < min 20 (length cat)"
    and "asc ''     ... and '' @ str_int k @ asc '' more''
      = asc ''  '' @ format_2d (int (Suc i)) @ asc ''. '' @ cat ! i"
    by (auto simp: spec_catalog_lines_def)
  then show False
    using entry_not_summary [of i "asc ''. '' @ cat ! i" k] by simp
qed

lemma summary_in_catalog_iff:
  "(\<exists>k. asc ''     ... and '' @ str_int k @ asc '' more'' \<in> set (spec_catalog_lines cat))
     \<longleftrightarrow> 20 < length cat"
proof
  assume "\<exists>k. asc ''     ... and '' @ str_int k @ asc '' more'' \<in> set (spec_catalog_lines cat)"
  then show "20 < length cat"
    using summary_in_catalog by blast
next
  assume "20 < length cat"
  then have "asc ''     ... and '' @ str_int (int (length cat) - 20) @ asc '' more''
      \<in> set (spec_catalog_lines cat)"
    by (simp add: spec_catalog_lines_def)
  then show "\<exists>k. asc ''     ... and '' @ str_int k @ asc '' more'' \<in> set (spec_catalog_lines cat)"
    by blast
qed

lemma length_catalog_lines:
  "length (spec_catalog_lines cat) = min 20 (length cat) + (if 20 < length cat then 1 else 0)"
  by (simp add: spec_catalog_lines_def)

lemma catalog_lines_nth:
  "i < min 20 (length cat) \<Longrightarrow>
   spec_catalog_lines cat ! i = asc ''  '' @ format_2d (int i + 1) @ asc ''. '' @ cat ! i"
  by (simp add: spec_catalog_lines_def nth_append add.commute)

lemma catalog_lines_summary:
  "20 < length cat \<Longrightarrow>
   spec_catalog_lines cat ! 20 = asc ''     ... and '' @ str_int (int (length cat) - 20) @ asc '' more''"
  by (simp add: spec_catalog_lines_def nth_append)

lemma summary_of_1: "asc ''     ... and '' @ str_int 1 @ asc '' more'' = asc ''     ... and 1 more''"
  by (simp add: str_int_def dec_nat.simps asc_def)

lemma catalog_line_heads: "l \<in> set (spec_catalog_lines cat) \<Longrightarrow> hd l = 32"
  by (auto simp: spec_catalog_lines_def asc_def split: if_splits)

text \<open>
  C7, as the script has it. When the service answers the catalog request with a list of
  skills, and the first 20 of them can be encoded on standard output, \<^verbatim>\<open>main\<close> without
  skill arguments prints the usage, the catalog and the example. The catalog is the
  first 20 entries at most, numbered from 1, and after them the summary line with the
  number of the entries beyond 20; a line of the form of the summary is printed if and
  only if the catalog has more than 20 entries. The summary line starts with five
  spaces, as line 71 of the script has it: with 21 entries it is
  \<^verbatim>\<open>     ... and 1 more\<close>.
\<close>

theorem catalog_display:
  assumes "snd (fetch_json net skills_request) = Inr (json_of_catalog True cat)"
    and "length argv < 2" and "list_all encodable (take 20 cat)"
  shows "printed (main R net argv)
      = [asc ''Usage: python find-jobs-by-skill.py <skill1> [skill2] [skill3] ...'',
         10 # asc ''Available skills:'']
        @ (if cat = [] then [asc ''  (Could not fetch skills - make sure server is running)'']
           else spec_catalog_lines cat)
        @ [10 # asc ''Example: python find-jobs-by-skill.py JavaScript React Node.js'']
    \<and> snd (main R net argv) = Inl (SystemExit 1)
    \<and> (\<forall>i<min 20 (length cat).
          printed (main R net argv) ! (2 + i)
            = asc ''  '' @ format_2d (int i + 1) @ asc ''. '' @ cat ! i)
    \<and> length (printed (main R net argv))
        = 3 + (if cat = [] then 1 else min 20 (length cat) + (if 20 < length cat then 1 else 0))
    \<and> ((\<exists>k. asc ''     ... and '' @ str_int k @ asc '' more'' \<in> set (printed (main R net argv)))
          \<longleftrightarrow> 20 < length cat)
    \<and> (20 < length cat \<longrightarrow>
          printed (main R net argv) ! 22
            = asc ''     ... and '' @ str_int (int (length cat) - 20) @ asc '' more'')
    \<and> (length cat = 21 \<longrightarrow> printed (main R net argv) ! 22 = asc ''     ... and 1 more'')"
proof -
  let ?lines = "if cat = [] then [could_not_fetch_line] else spec_catalog_lines cat"
  have out: "printed (main R net argv) = usage_line # available_line # ?lines @ [example_line]"
    unfolding main_catalog [OF assms] by (simp add: printed_def comp_def)
  have ended: "snd (main R net argv) = Inl (SystemExit 1)"
    unfolding main_catalog [OF assms] by simp
  have entries: "(usage_line # available_line # ?lines @ [example_line]) ! (2 + i)
      = asc ''  '' @ format_2d (int i + 1) @ asc ''. '' @ cat ! i" if "i < min 20 (length cat)" for i
  proof -
    from that have "cat \<noteq> []" by auto
    moreover from that have "i < length (spec_catalog_lines cat)"
      by (simp add: length_catalog_lines)
    ultimately show ?thesis
      using catalog_lines_nth [OF that] by (simp add: nth_append)
  qed
  have len: "length (usage_line # available_line # ?lines @ [example_line])
      = 3 + (if cat = [] then 1 else min 20 (length cat) + (if 20 < length cat then 1 else 0))"
    by (simp add: length_catalog_lines)
  have summary: "(\<exists>k. asc ''     ... and '' @ str_int k @ asc '' more''
        \<in> set (usage_line # available_line # ?lines @ [example_line]))
      \<longleftrightarrow> 20 < length cat"
  proof (cases "cat = []")
    case True
    then show ?thesis
      using fixed_not_summary fixed_not_summary [THEN not_sym] by auto
  next
    case False
    then have "(\<exists>k. asc ''     ... and '' @ str_int k @ asc '' more''
          \<in> set (usage_line # available_line # ?lines @ [example_line]))
        \<longleftrightarrow> (\<exists>k. asc ''     ... and '' @ str_int k @ asc '' more'' \<in> set (spec_catalog_lines cat))"
      using fixed_not_summary fixed_not_summary [THEN not_sym] by auto
    then show ?thesis
      by (simp only: summary_in_catalog_iff)
  qed
  have last: "(usage_line # available_line # ?lines @ [example_line]) ! 22
      = asc ''     ... and '' @ str_int (int (length cat) - 20) @ asc '' more''" if "20 < length cat"
  proof -
    from that have "cat \<noteq> []" by auto
    moreover have "(22::nat) = Suc (Suc 20)" by simp
    moreover from that have "20 < length (spec_catalog_lines cat)"
      by (simp add: length_catalog_lines)
    ultimately show ?thesis
      using catalog_lines_summary [OF that] by (simp add: nth_append)
  qed
  have one: "(usage_line # available_line # ?lines @ [example_line]) ! 22 = asc ''     ... and 1 more''"
    if "length cat = 21"
    using last that summary_of_1 by simp
  show ?thesis
  proof (intro conjI allI impI)
    show "printed (main R net argv)
        = [asc ''Usage: python find-jobs-by-skill.py <skill1> [skill2] [skill3] ...'',
           10 # asc ''Available skills:'']
          @ (if cat = [] then [asc ''  (Could not fetch skills - make sure server is running)'']
             else spec_catalog_lines cat)
          @ [10 # asc ''Example: python find-jobs-by-skill.py JavaScript React Node.js'']"
      by (simp add: out usage_line_def available_line_def could_not_fetch_line_def example_line_def)
    show "snd (main R net argv) = Inl (SystemExit 1)"
      by (rule ended)
    show "printed (main R net argv) ! (2 + i)
        = asc ''  '' @ format_2d (int i + 1) @ asc ''. '' @ cat ! i" if "i < min 20 (length cat)" for i
      unfolding out using that by (rule entries)
    show "length (printed (main R net argv))
        = 3 + (if cat = [] then 1 else min 20 (length cat) + (if 20 < length cat then 1 else 0))"
      unfolding out by (rule len)
    show "(\<exists>k. asc ''     ... and '' @ str_int k @ asc '' more'' \<in> set (printed (main R net argv)))
        \<longleftrightarrow> 20 < length cat"
      unfolding out by (rule summary)
    show "printed (main R net argv) ! 22
        = asc ''     ... and '' @ str_int (int (length cat) - 20) @ asc '' more''" if "20 < length cat"
      unfolding out using that by (rule last)
    show "printed (main R net argv) ! 22 = asc ''     ... and 1 more''" if "length cat = 21"
      unfolding out using that by (rule one)
  qed
qed

theorem catalog_display_witness:
  "snd (fetch_json (net_catalog (replicate 21 (asc ''Go''))) skills_request)
     = Inr (json_of_catalog True (replicate 21 (asc ''Go'')))
   \<and> snd (fetch_json (net_catalog (replicate 20 (asc ''Go''))) skills_request)
     = Inr (json_of_catalog True (replicate 20 (asc ''Go'')))
   \<and> snd (fetch_json (net_catalog (replicate 32 (asc ''Go''))) skills_request)
     = Inr (json_of_catalog True (replicate 32 (asc ''Go'')))
   \<and> length [script_name] < 2
   \<and> list_all encodable (take 20 (replicate 21 (asc ''Go'')))
   \<and> list_all encodable (take 20 (replicate 20 (asc ''Go'')))
   \<and> list_all encodable (take 20 (replicate 32 (asc ''Go'')))
   \<and> length (replicate 21 (asc ''Go'')) = 21
   \<and> printed (main no_repr (net_catalog (replicate 21 (asc ''Go''))) [script_name]) ! 2 = asc ''   1. Go''
   \<and> printed (main no_repr (net_catalog (replicate 21 (asc ''Go''))) [script_name]) ! 21 = asc ''  20. Go''
   \<and> printed (main no_repr (net_catalog (replicate 21 (asc ''Go''))) [script_name]) ! 22
       = asc ''     ... and 1 more''
   \<and> length (printed (main no_repr (net_catalog (replicate 21 (asc ''Go''))) [script_name])) = 24
   \<and> printed (main no_repr (net_catalog (replicate 20 (asc ''Go''))) [script_name]) ! 21 = asc ''  20. Go''
   \<and> length (printed (main no_repr (net_catalog (replicate 20 (asc ''Go''))) [script_name])) = 23
   \<and> (\<exists>k. asc ''     ... and '' @ str_int k @ asc '' more''
         \<in> set (printed (main no_repr (net_catalog (replicate 20 (asc ''Go''))) [script_name]))) = False
   \<and> printed (main no_repr (net_catalog (replicate 32 (asc ''Go''))) [script_name]) ! 22
       = asc ''     ... and 12 more''"
proof -
  let ?c21 = "replicate 21 (asc ''Go'')" and ?c20 = "replicate 20 (asc ''Go'')"
  let ?c32 = "replicate 32 (asc ''Go'')"
  have served: "snd (fetch_json (net_catalog cat) skills_request) = Inr (json_of_catalog True cat)" for cat
    by (simp add: net_catalog_def fetch_json_ok)
  have no_args: "length [script_name] < 2"
    by simp
  have enc: "list_all encodable (take 20 (replicate n (asc ''Go'')))" for n
    by (simp add: list_all_length encodable_asc)
  have first: "asc ''  '' @ format_2d (int 0 + 1) @ asc ''. '' @ asc ''Go'' = asc ''   1. Go''"
    and twentieth: "asc ''  '' @ format_2d (int 19 + 1) @ asc ''. '' @ asc ''Go'' = asc ''  20. Go''"
    by (simp_all add: format_2d_def str_int_def dec_nat.simps asc_def)
  have twelve: "asc ''     ... and '' @ str_int (int (length ?c32) - 20) @ asc '' more''
      = asc ''     ... and 12 more''"
    by (simp add: str_int_def dec_nat.simps asc_def)
  note at21 = catalog_display [OF served [of ?c21] no_args enc [of 21], where R = no_repr]
  note at20 = catalog_display [OF served [of ?c20] no_args enc [of 20], where R = no_repr]
  note at32 = catalog_display [OF served [of ?c32] no_args enc [of 32], where R = no_repr]
  from at21 have entries21: "\<forall>i<min 20 (length ?c21).
      printed (main no_repr (net_catalog ?c21) [script_name]) ! (2 + i)
        = asc ''  '' @ format_2d (int i + 1) @ asc ''. '' @ ?c21 ! i"
    by blast
  from at20 have entries20: "\<forall>i<min 20 (length ?c20).
      printed (main no_repr (net_catalog ?c20) [script_name]) ! (2 + i)
        = asc ''  '' @ format_2d (int i + 1) @ asc ''. '' @ ?c20 ! i"
    by blast
  from entries21 [rule_format, of 0] first
  have a: "printed (main no_repr (net_catalog ?c21) [script_name]) ! 2 = asc ''   1. Go''"
    by simp
  from entries21 [rule_format, of 19] twentieth
  have b: "printed (main no_repr (net_catalog ?c21) [script_name]) ! 21 = asc ''  20. Go''"
    by simp
  from entries20 [rule_format, of 19] twentieth
  have c: "printed (main no_repr (net_catalog ?c20) [script_name]) ! 21 = asc ''  20. Go''"
    by simp
  have l21: "length ?c21 = 21" and l32: "20 < length ?c32"
    by simp_all
  from at21 l21 have d: "printed (main no_repr (net_catalog ?c21) [script_name]) ! 22
      = asc ''     ... and 1 more''"
    by blast
  from at21 have "length (printed (main no_repr (net_catalog ?c21) [script_name]))
      = 3 + (if ?c21 = [] then 1 else min 20 (length ?c21) + (if 20 < length ?c21 then 1 else 0))"
    by blast
  then have e: "length (printed (main no_repr (net_catalog ?c21) [script_name])) = 24"
    by simp
  from at20 have "length (printed (main no_repr (net_catalog ?c20) [script_name]))
      = 3 + (if ?c20 = [] then 1 else min 20 (length ?c20) + (if 20 < length ?c20 then 1 else 0))"
    by blast
  then have f: "length (printed (main no_repr (net_catalog ?c20) [script_name])) = 23"
    by simp
  from at20 have "(\<exists>k. asc ''     ... and '' @ str_int k @ asc '' more''
      \<in> set (printed (main no_repr (net_catalog ?c20) [script_name]))) \<longleftrightarrow> 20 < length ?c20"
    by blast
  then have g: "(\<exists>k. asc ''     ... and '' @ str_int k @ asc '' more''
      \<in> set (printed (main no_repr (net_catalog ?c20) [script_name]))) = False"
    by simp
  from at32 l32 have "printed (main no_repr (net_catalog ?c32) [script_name]) ! 22
      = asc ''     ... and '' @ str_int (int (length ?c32) - 20) @ asc '' more''"
    by blast
  then have h: "printed (main no_repr (net_catalog ?c32) [script_name]) ! 22
      = asc ''     ... and 12 more''"
    by (simp only: twelve)
  from served [of ?c21] served [of ?c20] served [of ?c32] no_args enc [of 21] enc [of 20] enc [of 32]
    l21 a b c d e f g h
  show ?thesis
    by (intro conjI)
qed

theorem summary_indent_counterexample:
  "length (replicate 21 (asc ''Go'')) = 21
   \<and> list_all encodable (replicate 21 (asc ''Go''))
   \<and> printed (main no_repr (net_catalog (replicate 21 (asc ''Go''))) [script_name]) ! 22
       = asc ''     ... and 1 more''
   \<and> asc ''     ... and 1 more'' \<noteq> asc ''... and 1 more''
   \<and> asc ''... and 1 more''
       \<notin> set (printed (main no_repr (net_catalog (replicate 21 (asc ''Go''))) [script_name]))"
proof -
  let ?c21 = "replicate 21 (asc ''Go'')"
  have served: "snd (fetch_json (net_catalog ?c21) skills_request) = Inr (json_of_catalog True ?c21)"
    by (simp add: net_catalog_def fetch_json_ok)
  have no_args: "length [script_name] < 2"
    by simp
  have enc: "list_all encodable (take 20 ?c21)" "list_all encodable ?c21"
    by (simp_all add: list_all_length encodable_asc)
  have out: "printed (main no_repr (net_catalog ?c21) [script_name])
      = usage_line # available_line # spec_catalog_lines ?c21 @ [example_line]"
    unfolding main_catalog [OF served no_args enc(1)] by (simp add: printed_def comp_def)
  have "hd l \<noteq> 46" if "l \<in> set (usage_line # available_line # spec_catalog_lines ?c21 @ [example_line])"
    for l
    using that catalog_line_heads [of l ?c21]
    by (auto simp: usage_line_def available_line_def example_line_def asc_def)
  moreover have "hd (asc ''... and 1 more'') = 46"
    by (simp add: asc_def)
  ultimately have absent: "asc ''... and 1 more''
      \<notin> set (printed (main no_repr (net_catalog ?c21) [script_name]))"
    unfolding out by blast
  have "spec_catalog_lines ?c21 ! 20 = asc ''     ... and 1 more''"
    using catalog_lines_summary [of ?c21] summary_of_1 by simp
  moreover have "length (spec_catalog_lines ?c21) = 21"
    by (simp add: length_catalog_lines)
  moreover have "(22::nat) = Suc (Suc 20)"
    by simp
  ultimately have line: "printed (main no_repr (net_catalog ?c21) [script_name]) ! 22
      = asc ''     ... and 1 more''"
    unfolding out by (simp add: nth_append)
  have differs: "asc ''     ... and 1 more'' \<noteq> asc ''... and 1 more''"
    by (simp add: asc_def)
  from enc(2) line differs absent show ?thesis
    by simp
qed


end
